theory Spec2Isabelle
  imports Complex_Main
begin

section \<open>The chess game analyzer (analyzer.py)\<close>

text \<open>
  A shallow embedding of \<^verbatim>\<open>analyzer.py\<close>. Python floats are read as real numbers
  (\<^verbatim>\<open>math.exp\<close> is \<open>exp\<close>, \<^verbatim>\<open>/\<close> is real division written partial where the
  divisor may be zero), Python integers as \<open>int\<close>. The chess library and the engine are
  collaborators outside the repository: the board keeps the two things the analyzer reads
  from it (side to move, moves played), the engine is a function of the board.
\<close>

subsection \<open>Numeric conversions\<close>

text \<open>
  The two formulas as the source writes them, over the reals. The program evaluates them
  on IEEE doubles: there \<^verbatim>\<open>1 + math.exp(x)\<close> rounds to 1 once \<^verbatim>\<open>math.exp(x)\<close> is below half
  a unit in the last place, so that \<^verbatim>\<open>centipawns_to_win_percent\<close> returns exactly 100.0 for
  large centipawn values (the 10000 of a forced mate among them), and \<^verbatim>\<open>math.exp\<close> raises
  \<^verbatim>\<open>OverflowError\<close> for very negative ones. Rounding and overflow are outside this model;
  what is proved of these functions is proved of the real-valued formulas.
\<close>

definition centipawns_to_win_percent :: "real \<Rightarrow> real" where
  "centipawns_to_win_percent centipawns =
     50 + 50 * (2 / (1 + exp (- 0.00368208 * centipawns)) - 1)"

definition calculate_move_accuracy :: "real \<Rightarrow> real \<Rightarrow> real" where
  "calculate_move_accuracy win_percent_before win_percent_after =
     (let win_percent_loss = win_percent_before - win_percent_after;
          win_percent_loss = (if win_percent_loss < 0 then 0 else win_percent_loss);
          accuracy = 103.1668 * exp (- 0.04354 * win_percent_loss) - 3.1669
      in max 0 (min 100 accuracy))"

text \<open>The accuracy formula before the final clamp, as a function of the floored loss.\<close>

definition raw_accuracy :: "real \<Rightarrow> real" where
  "raw_accuracy win_percent_loss = 103.1668 * exp (- 0.04354 * win_percent_loss) - 3.1669"

subsection \<open>The chess library: boards, scores, the engine\<close>

text \<open>
  A board, as far as the analyzer reads it: \<open>turn\<close> is the side to move
  (\<open>True\<close> is \<^verbatim>\<open>chess.WHITE\<close>), \<open>move_stack\<close> the moves pushed so far.
  \<^verbatim>\<open>board.push(move)\<close> appends the move and passes the turn.
\<close>

record 'mv board =
  turn :: bool
  move_stack :: "'mv list"

definition push :: "'mv board \<Rightarrow> 'mv \<Rightarrow> 'mv board" where
  "push b m = b\<lparr>turn := \<not> turn b, move_stack := move_stack b @ [m]\<rparr>"

text \<open>
  A score of the engine: \<^verbatim>\<open>chess.engine.Cp\<close> with its centipawns, \<^verbatim>\<open>chess.engine.Mate\<close>
  with its mate distance, or any other score object (the \<^verbatim>\<open>else\<close> branches of the source).
\<close>

datatype score = Cp int | Mate int | OtherScore

text \<open>One entry of a multi-line analysis: \<^verbatim>\<open>entry["pv"]\<close> when present, and the score
  from the point of view of the side to move.\<close>

record 'mv info =
  info_pv :: "'mv list option"
  info_score :: score

text \<open>
  The engine: \<open>analyse\<close> is \<^verbatim>\<open>engine.analyse(board, Limit(depth))["score"].white()\<close>,
  \<open>analyse_multipv\<close> the list of entries of the call with \<^verbatim>\<open>multipv=n\<close>.
\<close>

record 'mv engine =
  analyse :: "'mv board \<Rightarrow> int \<Rightarrow> score"
  analyse_multipv :: "'mv board \<Rightarrow> int \<Rightarrow> int \<Rightarrow> 'mv info list"

definition evaluate_position :: "'mv engine \<Rightarrow> 'mv board \<Rightarrow> int \<Rightarrow> real option" where
  "evaluate_position eng b depth =
     (case analyse eng b depth of
        Cp c \<Rightarrow> Some (real_of_int c / 100)
      | Mate mate_value \<Rightarrow> Some (if mate_value > 0 then 100 else - 100)
      | OtherScore \<Rightarrow> None)"

definition top_move_entry :: "'mv info \<Rightarrow> ('mv \<times> real) option" where
  "top_move_entry entry =
     (case info_pv entry of
        Some (move # _) \<Rightarrow>
          (case info_score entry of
             Cp c \<Rightarrow> Some (move, real_of_int c / 100)
           | Mate mate_value \<Rightarrow> Some (move, if mate_value > 0 then 100 else - 100)
           | OtherScore \<Rightarrow> None)
      | _ \<Rightarrow> None)"

definition get_top_moves :: "'mv engine \<Rightarrow> 'mv board \<Rightarrow> int \<Rightarrow> int \<Rightarrow> ('mv \<times> real) list" where
  "get_top_moves eng b depth n = List.map_filter top_move_entry (analyse_multipv eng b depth n)"

subsection \<open>The game tree\<close>

text \<open>
  A node of the game tree carries its move, its comment, its NAGs and its variations, the
  main line first. The game is the root: it has headers, a comment and NAGs of its own and
  the starting position \<^verbatim>\<open>game.board()\<close>.
\<close>

datatype 'mv game_node =
  GameNode (node_move: 'mv) (node_comment: string) (node_nags: "int set")
    (node_variations: "'mv game_node list")

record 'mv game =
  headers :: "string \<rightharpoonup> string"
  game_comment :: string
  game_nags :: "int set"
  start_board :: "'mv board"
  variations :: "'mv game_node list"

fun clean_node :: "'mv game_node \<Rightarrow> 'mv game_node" where
  "clean_node (GameNode m c n vs) = GameNode m [] {} (map clean_node vs)"

fun keep_mainline_only :: "'mv game_node list \<Rightarrow> 'mv game_node list" where
  "keep_mainline_only [] = []"
| "keep_mainline_only (GameNode m c n vs # others) = [GameNode m c n (keep_mainline_only vs)]"

definition clean_game_annotations :: "'mv game \<Rightarrow> 'mv game" where
  "clean_game_annotations g =
     g\<lparr>game_comment := [], game_nags := {},
       variations := keep_mainline_only (map clean_node (variations g))\<rparr>"

text \<open>The moves of the main line: from each node on, its first variation.\<close>

fun mainline :: "'mv game_node list \<Rightarrow> 'mv list" where
  "mainline [] = []"
| "mainline (GameNode m c n vs # others) = m # mainline vs"

subsection \<open>Statistics and annotated moves\<close>

text \<open>
  The statistics of one player: \<open>nag_count\<close> holds the entries under the keys 6
  (inaccuracy), 2 (mistake) and 4 (blunder), the other fields the entries \<^verbatim>\<open>'moves'\<close>,
  \<^verbatim>\<open>'total_accuracy'\<close> and \<^verbatim>\<open>'accuracy_count'\<close>.
\<close>

record player_stats =
  nag_count :: "int \<Rightarrow> int"
  moves :: int
  total_accuracy :: real
  accuracy_count :: int

record stats =
  white :: player_stats
  black :: player_stats
  total_moves :: int

datatype player_key = White | Black

definition player_stats_of :: "stats \<Rightarrow> player_key \<Rightarrow> player_stats" where
  "player_stats_of s p = (case p of White \<Rightarrow> white s | Black \<Rightarrow> black s)"

definition update_player :: "player_key \<Rightarrow> (player_stats \<Rightarrow> player_stats) \<Rightarrow> stats \<Rightarrow> stats" where
  "update_player p f s = (case p of White \<Rightarrow> s\<lparr>white := f (white s)\<rparr> | Black \<Rightarrow> s\<lparr>black := f (black s)\<rparr>)"

definition capitalize :: "player_key \<Rightarrow> string" where
  "capitalize p = (case p of White \<Rightarrow> ''White'' | Black \<Rightarrow> ''Black'')"

definition initial_player_stats :: player_stats where
  "initial_player_stats =
     \<lparr>nag_count = (\<lambda>_. 0), moves = 0, total_accuracy = 0, accuracy_count = 0\<rparr>"

definition initial_stats :: stats where
  "initial_stats = \<lparr>white = initial_player_stats, black = initial_player_stats, total_moves = 0\<rparr>"

record annotated_move =
  move_number :: int
  player :: string
  move :: string
  annotation :: string
  eval_change :: real
  move_accuracy :: "real option"

subsection \<open>The annotation loop\<close>

text \<open>The variables of the loop of \<^verbatim>\<open>annotate_game\<close>.\<close>

record 'mv loop_state =
  cur_board :: "'mv board"
  cur_move_number :: int
  cur_stats :: stats
  cur_annotated :: "annotated_move list"

text \<open>
  The chain of threshold tests on the change of evaluation seen by the mover: the NAG and
  the symbol of the first test that holds, blunder first.
\<close>

definition classify :: "real \<Rightarrow> real \<Rightarrow> real \<Rightarrow> real \<Rightarrow> (int \<times> string) option" where
  "classify thresh_inac thresh_mistake thresh_blunder change =
     (if change \<le> - thresh_blunder then Some (4, ''??'')
      else if change \<le> - thresh_mistake then Some (2, ''?'')
      else if change \<le> - thresh_inac then Some (6, ''?!'')
      else None)"

text \<open>The win percentage seen by the mover, from an evaluation seen by White.\<close>

definition mover_win_percent :: "player_key \<Rightarrow> real option \<Rightarrow> real option" where
  "mover_win_percent current_player ev =
     (case ev of
        Some e \<Rightarrow>
          (let cp = e * 100; cp = (if current_player = Black then - cp else cp)
           in Some (centipawns_to_win_percent cp))
      | None \<Rightarrow> None)"

text \<open>
  One pass through the body of the loop, for the move of the first variation: the NAGs the
  node is left with and the variables after the pass.
\<close>

definition annotate_ply ::
  "('mv board \<Rightarrow> 'mv \<Rightarrow> string) \<Rightarrow> 'mv engine \<Rightarrow> int \<Rightarrow> int \<Rightarrow> real \<Rightarrow> real \<Rightarrow> real \<Rightarrow>
   'mv loop_state \<Rightarrow> 'mv \<Rightarrow> int set \<times> 'mv loop_state" where
  "annotate_ply san eng depth top_moves thresh_inac thresh_mistake thresh_blunder st mv =
     (let board = cur_board st;
          move_number = cur_move_number st;
          move_notation = san board mv;
          current_player = (if turn board then White else Black);
          stats = update_player current_player (\<lambda>p. p\<lparr>moves := moves p + 1\<rparr>) (cur_stats st);
          stats = stats\<lparr>total_moves := total_moves stats + 1\<rparr>;
          eval_before = evaluate_position eng board depth;
          win_percent_before = mover_win_percent current_player eval_before;
          top_move_list = get_top_moves eng board depth top_moves;
          board = push board mv;
          eval_after = evaluate_position eng board depth;
          win_percent_after = mover_win_percent current_player eval_after;
          (move_accuracy, stats) =
            (case (win_percent_before, win_percent_after) of
               (Some wb, Some wa) \<Rightarrow>
                 (let acc = calculate_move_accuracy wb wa
                  in (Some acc,
                      update_player current_player
                        (\<lambda>p. p\<lparr>total_accuracy := total_accuracy p + acc,
                                accuracy_count := accuracy_count p + 1\<rparr>) stats))
             | _ \<Rightarrow> (None, stats));
          (node_nags, stats, annotated_moves) =
            (if move_number > 2 then
               (case (eval_before, eval_after) of
                  (Some eb, Some ea) \<Rightarrow>
                    (let change = (if current_player = White then ea - eb else eb - ea)
                     in case classify thresh_inac thresh_mistake thresh_blunder change of
                          Some (nag, symbol) \<Rightarrow>
                            ({nag},
                             update_player current_player
                               (\<lambda>p. p\<lparr>nag_count := (nag_count p)(nag := nag_count p nag + 1)\<rparr>)
                               stats,
                             cur_annotated st @
                               [\<lparr>move_number = move_number, player = capitalize current_player,
                                 move = move_notation, annotation = symbol,
                                 eval_change = change, move_accuracy = move_accuracy\<rparr>])
                        | None \<Rightarrow> ({}, stats, cur_annotated st))
                | _ \<Rightarrow> ({}, stats, cur_annotated st))
             else ({}, stats, cur_annotated st));
          move_number = (if turn board then move_number + 1 else move_number)
      in (node_nags,
          \<lparr>cur_board = board, cur_move_number = move_number, cur_stats = stats,
           cur_annotated = annotated_moves\<rparr>))"

text \<open>
  The loop \<^verbatim>\<open>while node.variations\<close>: it takes the first variation of the node, runs the
  body on it and goes on from there; the other variations are left as they are.
\<close>

fun annotate_loop ::
  "('mv board \<Rightarrow> 'mv \<Rightarrow> string) \<Rightarrow> 'mv engine \<Rightarrow> int \<Rightarrow> int \<Rightarrow> real \<Rightarrow> real \<Rightarrow> real \<Rightarrow>
   'mv loop_state \<Rightarrow> 'mv game_node list \<Rightarrow> 'mv game_node list \<times> 'mv loop_state" where
  "annotate_loop san eng depth top_moves ti tm tb st [] = ([], st)"
| "annotate_loop san eng depth top_moves ti tm tb st (GameNode m c n vs # others) =
     (let (node_nags, st') = annotate_ply san eng depth top_moves ti tm tb st m;
          (vs', st'') = annotate_loop san eng depth top_moves ti tm tb st' vs
      in (GameNode m c node_nags vs' # others, st''))"

definition annotate_game ::
  "('mv board \<Rightarrow> 'mv \<Rightarrow> string) \<Rightarrow> 'mv game \<Rightarrow> 'mv engine \<Rightarrow> int \<Rightarrow> int \<Rightarrow> real \<Rightarrow> real \<Rightarrow> real \<Rightarrow>
   'mv game \<times> stats \<times> annotated_move list" where
  "annotate_game san g eng depth top_moves thresh_inac thresh_mistake thresh_blunder =
     (let st = \<lparr>cur_board = start_board g, cur_move_number = 1, cur_stats = initial_stats,
                cur_annotated = []\<rparr>;
          (vs, st) = annotate_loop san eng depth top_moves thresh_inac thresh_mistake
                       thresh_blunder st (variations g)
      in (g\<lparr>variations := vs\<rparr>, cur_stats st, cur_annotated st))"

subsection \<open>The report\<close>

text \<open>
  Python's \<^verbatim>\<open>/\<close> raises \<^verbatim>\<open>ZeroDivisionError\<close> on a zero divisor; the report is modelled
  with this error as a value, and by the numbers it prints, not by their layout.
\<close>

datatype py_error = ZeroDivisionError

definition truediv :: "real \<Rightarrow> real \<Rightarrow> py_error + real" where
  "truediv a b = (if b = 0 then Inl ZeroDivisionError else Inr (a / b))"

definition bind_result :: "py_error + 'a \<Rightarrow> ('a \<Rightarrow> py_error + 'b) \<Rightarrow> py_error + 'b" where
  "bind_result r f = (case r of Inl e \<Rightarrow> Inl e | Inr v \<Rightarrow> f v)"

datatype report_line =
    NagLine int int real
  | ErrorRateLine real int int
  | NoErrorsLine
  | AverageAccuracyLine real
  | AverageAccuracyNA

definition total_annotations :: "player_stats \<Rightarrow> int" where
  "total_annotations player_stats = sum_list (map (nag_count player_stats) [6, 2, 4])"

text \<open>The share of the moves carrying one NAG, in percent.\<close>

definition nag_percentage :: "player_stats \<Rightarrow> int \<Rightarrow> py_error + real" where
  "nag_percentage player_stats count =
     (if moves player_stats > 0
      then bind_result (truediv (real_of_int count) (real_of_int (moves player_stats)))
             (\<lambda>q. Inr (q * 100))
      else Inr 0)"

fun nag_lines :: "player_stats \<Rightarrow> int list \<Rightarrow> py_error + report_line list" where
  "nag_lines player_stats [] = Inr []"
| "nag_lines player_stats (nag # rest) =
     (let count = nag_count player_stats nag
      in if count > 0
         then bind_result (nag_percentage player_stats count) (\<lambda>percentage.
              bind_result (nag_lines player_stats rest) (\<lambda>ls.
              Inr (NagLine nag count percentage # ls)))
         else nag_lines player_stats rest)"

definition error_rate :: "player_stats \<Rightarrow> py_error + real" where
  "error_rate player_stats =
     (if moves player_stats > 0
      then bind_result (truediv (real_of_int (total_annotations player_stats))
                          (real_of_int (moves player_stats)))
             (\<lambda>q. Inr (q * 100))
      else Inr 0)"

text \<open>The average accuracy of a player; \<open>None\<close> is the report's \<^verbatim>\<open>N/A\<close>.\<close>

definition average_accuracy :: "player_stats \<Rightarrow> py_error + real option" where
  "average_accuracy player_stats =
     (if accuracy_count player_stats > 0
      then bind_result (truediv (total_accuracy player_stats)
                          (real_of_int (accuracy_count player_stats)))
             (\<lambda>avg_accuracy. Inr (Some avg_accuracy))
      else Inr None)"

definition player_statistics :: "player_stats \<Rightarrow> py_error + report_line list" where
  "player_statistics player_stats =
     bind_result
       (if total_annotations player_stats > 0
        then bind_result (nag_lines player_stats [6, 2, 4]) (\<lambda>ls.
             bind_result (error_rate player_stats) (\<lambda>rate.
             Inr (ls @ [ErrorRateLine rate (total_annotations player_stats)
                          (moves player_stats)])))
        else Inr [NoErrorsLine])
       (\<lambda>error_lines.
          bind_result (average_accuracy player_stats) (\<lambda>avg.
            Inr (error_lines @
                 [case avg of Some a \<Rightarrow> AverageAccuracyLine a | None \<Rightarrow> AverageAccuracyNA])))"

text \<open>The comparison of the two players: both average accuracies (0 where there is none)
  and both error rates, printed only when both players have moved.\<close>

definition comparison :: "stats \<Rightarrow> py_error + (real \<times> real \<times> real \<times> real) option" where
  "comparison stats =
     (if moves (white stats) > 0 \<and> moves (black stats) > 0 then
        bind_result (if accuracy_count (white stats) > 0
                     then truediv (total_accuracy (white stats))
                            (real_of_int (accuracy_count (white stats)))
                     else Inr 0) (\<lambda>white_accuracy.
        bind_result (if accuracy_count (black stats) > 0
                     then truediv (total_accuracy (black stats))
                            (real_of_int (accuracy_count (black stats)))
                     else Inr 0) (\<lambda>black_accuracy.
        bind_result (truediv (real_of_int (total_annotations (white stats)))
                       (real_of_int (moves (white stats)))) (\<lambda>wq.
        bind_result (truediv (real_of_int (total_annotations (black stats)))
                       (real_of_int (moves (black stats)))) (\<lambda>bq.
        Inr (Some (white_accuracy, black_accuracy, wq * 100, bq * 100))))))
      else Inr None)"

record report =
  white_statistics :: "report_line list"
  black_statistics :: "report_line list"
  comparison_lines :: "(real \<times> real \<times> real \<times> real) option"
  errors_found :: "annotated_move list"

definition generate_report :: "stats \<Rightarrow> annotated_move list \<Rightarrow> py_error + report" where
  "generate_report stats annotated_moves =
     bind_result (player_statistics (white stats)) (\<lambda>w.
     bind_result (player_statistics (black stats)) (\<lambda>b.
     bind_result (comparison stats) (\<lambda>c.
     Inr \<lparr>white_statistics = w, black_statistics = b, comparison_lines = c,
          errors_found = annotated_moves\<rparr>)))"

subsection \<open>The main program\<close>

text \<open>
  The arguments the analysis reads, and the surroundings of the program: which paths
  exist, the game read from a file (\<open>None\<close> when the file holds none), the engine started
  from a binary, and the library's move notation. \<open>Inl 1\<close> is \<^verbatim>\<open>sys.exit(1)\<close>.
  The model follows the runs in which no collaborator raises an exception: reading the
  file, starting the engine, the engine's answers and the two writes succeed. In the
  program an exception raised anywhere between the first and the last of these is caught
  and ends the run with exit status 1 as well; the only exception the model itself can
  raise, a division by zero in the report, is treated so.
\<close>

record main_args =
  arg_input :: string
  arg_engine :: string
  arg_depth :: int
  arg_top_moves :: int
  arg_inaccuracy :: real
  arg_mistake :: real
  arg_blunder :: real

record 'mv environment =
  path_exists :: "string \<Rightarrow> bool"
  read_game :: "string \<Rightarrow> 'mv game option"
  popen_uci :: "string \<Rightarrow> 'mv engine"
  board_san :: "'mv board \<Rightarrow> 'mv \<Rightarrow> string"

definition main ::
  "'mv environment \<Rightarrow> main_args \<Rightarrow> int + ('mv game \<times> stats \<times> annotated_move list \<times> report)" where
  "main env args =
     (if \<not> path_exists env (arg_input args) then Inl 1
      else if \<not> path_exists env (arg_engine args) then Inl 1
      else case read_game env (arg_input args) of
             None \<Rightarrow> Inl 1
           | Some game \<Rightarrow>
               (let game = clean_game_annotations game;
                    (annotated_game, stats, annotated_moves) =
                      annotate_game (board_san env) game (popen_uci env (arg_engine args))
                        (arg_depth args) (arg_top_moves args)
                        (arg_inaccuracy args) (arg_mistake args) (arg_blunder args)
                in case generate_report stats annotated_moves of
                     Inl e \<Rightarrow> Inl 1
                   | Inr report \<Rightarrow> Inr (annotated_game, stats, annotated_moves, report)))"

subsection \<open>Example games\<close>

text \<open>
  A game with a main line only, an engine that answers from a list of scores by the
  number of moves played (and has no usable score beyond the list), and a notation that
  writes a move as it is.
\<close>

definition line_game :: "bool \<Rightarrow> string list \<Rightarrow> string game" where
  "line_game white_first ms =
     \<lparr>headers = Map.empty, game_comment = [], game_nags = {},
      start_board = \<lparr>turn = white_first, move_stack = []\<rparr>,
      variations = foldr (\<lambda>m vs. [GameNode m [] {} vs]) ms []\<rparr>"

definition list_engine :: "score list \<Rightarrow> string engine" where
  "list_engine scores =
     \<lparr>analyse = (\<lambda>b depth. if length (move_stack b) < length scores
                            then scores ! length (move_stack b) else OtherScore),
      analyse_multipv = (\<lambda>b depth n. [])\<rparr>"

definition plain_san :: "string board \<Rightarrow> string \<Rightarrow> string" where
  "plain_san b m = m"

definition example_env :: "string game option \<Rightarrow> score list \<Rightarrow> string environment" where
  "example_env g scores =
     \<lparr>path_exists = (\<lambda>p. True), read_game = (\<lambda>p. g),
      popen_uci = (\<lambda>p. list_engine scores), board_san = plain_san\<rparr>"

definition example_args :: "real \<Rightarrow> real \<Rightarrow> real \<Rightarrow> main_args" where
  "example_args ti tm tb =
     \<lparr>arg_input = ''game.pgn'', arg_engine = ''/usr/local/bin/stockfish-bin'',
      arg_depth = 25, arg_top_moves = 5,
      arg_inaccuracy = ti, arg_mistake = tm, arg_blunder = tb\<rparr>"

definition warm_state :: "string loop_state" where
  "warm_state =
     \<lparr>cur_board = \<lparr>turn = True, move_stack = []\<rparr>, cur_move_number = 3,
      cur_stats = initial_stats, cur_annotated = []\<rparr>"

text \<open>The synthetic game of four plies and its evaluations 0.0, 0.2, 0.1, -1.0, -3.0.\<close>

definition synthetic_game :: "string game" where
  "synthetic_game = line_game True [''e4'', ''e5'', ''Qh5'', ''Ke7'']"

definition synthetic_engine :: "string engine" where
  "synthetic_engine = list_engine [Cp 0, Cp 20, Cp 10, Cp (- 100), Cp (- 300)]"

text \<open>A game of six plies in which White loses half a pawn with the fifth ply.\<close>

definition six_ply_game :: "string game" where
  "six_ply_game = line_game True [''e4'', ''e5'', ''Nf3'', ''Nc6'', ''Ke2'', ''Nf6'']"

definition six_ply_scores :: "score list" where
  "six_ply_scores = [Cp 0, Cp 0, Cp 0, Cp 0, Cp 0, Cp (- 50), Cp (- 50)]"

subsection \<open>Notions used in the statements\<close>

text \<open>
  The player about to move, the change of evaluation seen by that player, the variables
  of the loop of \<^verbatim>\<open>annotate_game\<close> before its first pass, and the loop state after running
  the body of the loop over a list of moves.
\<close>

definition mover :: "'mv loop_state \<Rightarrow> player_key" where
  "mover st = (if turn (cur_board st) then White else Black)"

definition swing :: "player_key \<Rightarrow> real \<Rightarrow> real \<Rightarrow> real" where
  "swing p eb ea = (if p = White then ea - eb else eb - ea)"

definition initial_loop_state :: "'mv game \<Rightarrow> 'mv loop_state" where
  "initial_loop_state g =
     \<lparr>cur_board = start_board g, cur_move_number = 1, cur_stats = initial_stats,
      cur_annotated = []\<rparr>"

definition run_plies ::
  "('mv board \<Rightarrow> 'mv \<Rightarrow> string) \<Rightarrow> 'mv engine \<Rightarrow> int \<Rightarrow> int \<Rightarrow> real \<Rightarrow> real \<Rightarrow> real \<Rightarrow>
   'mv loop_state \<Rightarrow> 'mv list \<Rightarrow> 'mv loop_state" where
  "run_plies san eng depth tn ti tm tb st ms =
     foldl (\<lambda>s m. snd (annotate_ply san eng depth tn ti tm tb s m)) st ms"

text \<open>
  The game of six plies with scores in which White loses a pawn with the fifth ply, and
  the loop state its analysis reaches after the first four plies.
\<close>

definition mistake_scores :: "score list" where
  "mistake_scores = [Cp 0, Cp 0, Cp 0, Cp 0, Cp 0, Cp (- 100), Cp (- 100)]"

definition six_ply_state :: "string loop_state" where
  "six_ply_state =
     run_plies plain_san (list_engine mistake_scores) 25 5 0.4 0.8 1.8
       (initial_loop_state six_ply_game) [''e4'', ''e5'', ''Nf3'', ''Nc6'']"

subsection \<open>Properties of the numeric conversions\<close>

lemma calculate_move_accuracy_raw:
  "calculate_move_accuracy b a = max 0 (min 100 (raw_accuracy (max 0 (b - a))))"
  by (simp add: calculate_move_accuracy_def raw_accuracy_def Let_def max_def)

lemma raw_accuracy_antimono: "x \<le> y \<Longrightarrow> raw_accuracy y \<le> raw_accuracy x"
  by (simp add: raw_accuracy_def)

lemma clamp_mono: "(x::real) \<le> y \<Longrightarrow> max 0 (min 100 x) \<le> max 0 (min 100 y)"
  by (simp add: max_def min_def)

lemma raw_accuracy_zero: "raw_accuracy 0 = 99.9999"
  by (simp add: raw_accuracy_def)

lemma exp_quarter_bound: "(2.68::real) < exp 1.0885"
proof -
  have "1 + (1.0885::real) + 1.0885\<^sup>2 / 2 \<le> exp 1.0885"
    by (rule exp_lower_Taylor_quadratic) simp
  moreover have "(2.68::real) < 1 + 1.0885 + 1.0885\<^sup>2 / 2"
    by (simp add: power2_eq_square)
  ultimately show ?thesis by linarith
qed

lemma exp_4354_bound: "(33::real) < exp 4.354"
proof -
  have "exp (4.354::real) = exp (4 * 1.0885)" by simp
  also have "\<dots> = exp 1.0885 ^ 4"
    by (metis exp_of_nat_mult of_nat_numeral)
  finally have e: "exp (4.354::real) = exp 1.0885 ^ 4" .
  have "(2.68::real) ^ 4 < exp 1.0885 ^ 4"
    by (rule power_strict_mono) (use exp_quarter_bound in simp_all)
  moreover have "(33::real) < 2.68 ^ 4" by (simp add: power4_eq_xxxx)
  ultimately show ?thesis using e by linarith
qed

lemma raw_accuracy_100_neg: "raw_accuracy 100 < 0"
proof -
  have "exp (- 4.354::real) = 1 / exp 4.354"
    using exp_minus [of "4.354::real"] by (simp add: field_simps)
  moreover have "1 / exp (4.354::real) < 1 / 33"
    using exp_4354_bound by (simp add: field_simps)
  ultimately have "exp (- 4.354::real) < 1 / 33" by simp
  then have "103.1668 * exp (- 4.354::real) < 103.1668 * (1 / 33)"
    by simp
  then show ?thesis by (simp add: raw_accuracy_def)
qed

subsection \<open>The report never divides by zero\<close>

lemma nag_percentage_ok:
  "nag_percentage ps count =
     Inr (if moves ps > 0 then real_of_int count / real_of_int (moves ps) * 100 else 0)"
  by (simp add: nag_percentage_def truediv_def bind_result_def)

lemma nag_lines_ok: "\<exists>ls. nag_lines ps ns = Inr ls"
  by (induction ns) (auto simp: nag_percentage_ok bind_result_def Let_def)

lemma error_rate_ok:
  "error_rate ps =
     Inr (if moves ps > 0
          then 100 * real_of_int (total_annotations ps) / real_of_int (moves ps) else 0)"
  by (simp add: error_rate_def truediv_def bind_result_def)

lemma average_accuracy_ok:
  "average_accuracy ps =
     Inr (if accuracy_count ps > 0
          then Some (total_accuracy ps / real_of_int (accuracy_count ps)) else None)"
  by (simp add: average_accuracy_def truediv_def bind_result_def)

lemma player_statistics_ok: "\<exists>ls. player_statistics ps = Inr ls"
proof -
  obtain ls where "nag_lines ps [6, 2, 4] = Inr ls" using nag_lines_ok by blast
  then show ?thesis
    by (simp add: player_statistics_def error_rate_ok average_accuracy_ok bind_result_def)
qed

lemma comparison_ok: "\<exists>c. comparison s = Inr c"
  by (simp add: comparison_def truediv_def bind_result_def)

lemma generate_report_ok: "\<exists>r. generate_report s am = Inr r"
proof -
  obtain w where w: "player_statistics (white s) = Inr w" using player_statistics_ok by blast
  obtain b where b: "player_statistics (black s) = Inr b" using player_statistics_ok by blast
  obtain c where c: "comparison s = Inr c" using comparison_ok by blast
  show ?thesis by (simp add: generate_report_def w b c bind_result_def)
qed

subsection \<open>One pass through the loop\<close>

lemma player_stats_of_update:
  "player_stats_of (update_player p f s) q = (if q = p then f (player_stats_of s p) else player_stats_of s q)"
  by (cases p; cases q) (simp_all add: player_stats_of_def update_player_def)

lemma total_moves_update [simp]: "total_moves (update_player p f s) = total_moves s"
  by (cases p) (simp_all add: update_player_def)

lemma player_stats_of_total_moves [simp]:
  "player_stats_of (s\<lparr>total_moves := n\<rparr>) p = player_stats_of s p"
  by (cases p) (simp_all add: player_stats_of_def)

lemma mover_win_percent_None [simp]: "mover_win_percent p None = None"
  by (simp add: mover_win_percent_def)

lemma mover_win_percent_Some [simp]:
  "mover_win_percent p (Some e) =
     Some (centipawns_to_win_percent (if p = Black then - (e * 100) else e * 100))"
  by (simp add: mover_win_percent_def Let_def)

lemma annotate_ply_board:
  "cur_board (snd (annotate_ply san eng depth tn ti tm tb st m)) = push (cur_board st) m"
  by (simp add: annotate_ply_def Let_def case_prod_unfold)

lemma annotate_ply_move_number:
  "cur_move_number (snd (annotate_ply san eng depth tn ti tm tb st m)) =
     (if turn (cur_board st) then cur_move_number st else cur_move_number st + 1)"
  by (simp add: annotate_ply_def Let_def push_def case_prod_unfold)

lemma annotate_ply_total_moves:
  "total_moves (cur_stats (snd (annotate_ply san eng depth tn ti tm tb st m))) =
     total_moves (cur_stats st) + 1"
  by (cases "evaluate_position eng (cur_board st) depth";
      cases "evaluate_position eng (push (cur_board st) m) depth";
      cases "classify ti tm tb (swing (mover st)
               (the (evaluate_position eng (cur_board st) depth))
               (the (evaluate_position eng (push (cur_board st) m) depth)))")
     (auto simp add: annotate_ply_def Let_def mover_def swing_def)

lemma annotate_ply_moves:
  "moves (player_stats_of (cur_stats (snd (annotate_ply san eng depth tn ti tm tb st m))) p) =
     (if p = mover st then moves (player_stats_of (cur_stats st) p) + 1
      else moves (player_stats_of (cur_stats st) p))"
  by (cases "evaluate_position eng (cur_board st) depth";
      cases "evaluate_position eng (push (cur_board st) m) depth";
      cases "classify ti tm tb (swing (mover st)
               (the (evaluate_position eng (cur_board st) depth))
               (the (evaluate_position eng (push (cur_board st) m) depth)))")
     (auto simp add: annotate_ply_def Let_def mover_def swing_def player_stats_of_update)

lemma annotate_ply_warmup:
  assumes "cur_move_number st \<le> 2"
  shows "cur_annotated (snd (annotate_ply san eng depth tn ti tm tb st m)) = cur_annotated st"
    and "nag_count (player_stats_of (cur_stats (snd (annotate_ply san eng depth tn ti tm tb st m))) p)
         = nag_count (player_stats_of (cur_stats st) p)"
    and "fst (annotate_ply san eng depth tn ti tm tb st m) = {}"
  using assms
  by (cases "evaluate_position eng (cur_board st) depth";
      cases "evaluate_position eng (push (cur_board st) m) depth";
      simp add: annotate_ply_def Let_def player_stats_of_update)+

lemma annotate_ply_unavailable:
  assumes "evaluate_position eng (cur_board st) depth = None \<or>
           evaluate_position eng (push (cur_board st) m) depth = None"
  shows "cur_annotated (snd (annotate_ply san eng depth tn ti tm tb st m)) = cur_annotated st"
    and "nag_count (player_stats_of (cur_stats (snd (annotate_ply san eng depth tn ti tm tb st m))) p)
         = nag_count (player_stats_of (cur_stats st) p)"
    and "total_accuracy (player_stats_of (cur_stats (snd (annotate_ply san eng depth tn ti tm tb st m))) p)
         = total_accuracy (player_stats_of (cur_stats st) p)"
    and "accuracy_count (player_stats_of (cur_stats (snd (annotate_ply san eng depth tn ti tm tb st m))) p)
         = accuracy_count (player_stats_of (cur_stats st) p)"
    and "fst (annotate_ply san eng depth tn ti tm tb st m) = {}"
proof -
  from assms consider
    (before) "evaluate_position eng (cur_board st) depth = None"
  | (after) "evaluate_position eng (push (cur_board st) m) depth = None" by auto
  then have "cur_annotated (snd (annotate_ply san eng depth tn ti tm tb st m)) = cur_annotated st
    \<and> nag_count (player_stats_of (cur_stats (snd (annotate_ply san eng depth tn ti tm tb st m))) p)
         = nag_count (player_stats_of (cur_stats st) p)
    \<and> total_accuracy (player_stats_of (cur_stats (snd (annotate_ply san eng depth tn ti tm tb st m))) p)
         = total_accuracy (player_stats_of (cur_stats st) p)
    \<and> accuracy_count (player_stats_of (cur_stats (snd (annotate_ply san eng depth tn ti tm tb st m))) p)
         = accuracy_count (player_stats_of (cur_stats st) p)
    \<and> fst (annotate_ply san eng depth tn ti tm tb st m) = {}"
  proof cases
    case before
    then show ?thesis
      by (simp add: annotate_ply_def Let_def player_stats_of_update)
  next
    case after
    then show ?thesis
      by (cases "evaluate_position eng (cur_board st) depth")
         (simp_all add: annotate_ply_def Let_def player_stats_of_update)
  qed
  then show "cur_annotated (snd (annotate_ply san eng depth tn ti tm tb st m)) = cur_annotated st"
    and "nag_count (player_stats_of (cur_stats (snd (annotate_ply san eng depth tn ti tm tb st m))) p)
         = nag_count (player_stats_of (cur_stats st) p)"
    and "total_accuracy (player_stats_of (cur_stats (snd (annotate_ply san eng depth tn ti tm tb st m))) p)
         = total_accuracy (player_stats_of (cur_stats st) p)"
    and "accuracy_count (player_stats_of (cur_stats (snd (annotate_ply san eng depth tn ti tm tb st m))) p)
         = accuracy_count (player_stats_of (cur_stats st) p)"
    and "fst (annotate_ply san eng depth tn ti tm tb st m) = {}"
    by simp_all
qed


lemma annotate_ply_classified:
  assumes "cur_move_number st > 2"
    and "evaluate_position eng (cur_board st) depth = Some eb"
    and "evaluate_position eng (push (cur_board st) m) depth = Some ea"
    and "classify ti tm tb (swing (mover st) eb ea) = Some (nag, symbol)"
  shows "cur_annotated (snd (annotate_ply san eng depth tn ti tm tb st m)) =
           cur_annotated st @
             [\<lparr>move_number = cur_move_number st, player = capitalize (mover st),
               move = san (cur_board st) m, annotation = symbol,
               eval_change = swing (mover st) eb ea,
               move_accuracy =
                 Some (calculate_move_accuracy
                   (centipawns_to_win_percent (if mover st = Black then - (eb * 100) else eb * 100))
                   (centipawns_to_win_percent (if mover st = Black then - (ea * 100) else ea * 100)))\<rparr>]"
    and "nag_count (player_stats_of (cur_stats (snd (annotate_ply san eng depth tn ti tm tb st m))) p)
         = (if p = mover st then (nag_count (player_stats_of (cur_stats st) p))
                                   (nag := nag_count (player_stats_of (cur_stats st) p) nag + 1)
            else nag_count (player_stats_of (cur_stats st) p))"
    and "fst (annotate_ply san eng depth tn ti tm tb st m) = {nag}"
  using assms
  by (auto simp add: annotate_ply_def Let_def mover_def swing_def player_stats_of_update)

lemma annotate_ply_unclassified:
  assumes "evaluate_position eng (cur_board st) depth = Some eb"
    and "evaluate_position eng (push (cur_board st) m) depth = Some ea"
    and "classify ti tm tb (swing (mover st) eb ea) = None"
  shows "cur_annotated (snd (annotate_ply san eng depth tn ti tm tb st m)) = cur_annotated st"
    and "nag_count (player_stats_of (cur_stats (snd (annotate_ply san eng depth tn ti tm tb st m))) p)
         = nag_count (player_stats_of (cur_stats st) p)"
    and "fst (annotate_ply san eng depth tn ti tm tb st m) = {}"
  using assms
  by (auto simp add: annotate_ply_def Let_def mover_def swing_def player_stats_of_update)

lemma annotate_ply_annotated_cases:
  "cur_annotated (snd (annotate_ply san eng depth tn ti tm tb st m)) = cur_annotated st \<or>
   (\<exists>a. cur_annotated (snd (annotate_ply san eng depth tn ti tm tb st m)) = cur_annotated st @ [a]
        \<and> move_number a = cur_move_number st \<and> 2 < cur_move_number st)"
proof (cases "2 < cur_move_number st")
  case False
  then show ?thesis using annotate_ply_warmup(1) [of st] by simp
next
  case big: True
  show ?thesis
  proof (cases "evaluate_position eng (cur_board st) depth")
    case None
    then show ?thesis using annotate_ply_unavailable(1) [of eng st depth m] by simp
  next
    case eb: (Some eb)
    show ?thesis
    proof (cases "evaluate_position eng (push (cur_board st) m) depth")
      case None
      then show ?thesis using annotate_ply_unavailable(1) [of eng st depth m] by simp
    next
      case ea: (Some ea)
      show ?thesis
      proof (cases "classify ti tm tb (swing (mover st) eb ea)")
        case None
        then show ?thesis using annotate_ply_unclassified(1) [OF eb ea] by simp
      next
        case (Some r)
        then obtain nag symbol where "classify ti tm tb (swing (mover st) eb ea) = Some (nag, symbol)"
          by (cases r) simp
        from annotate_ply_classified(1) [OF big eb ea this] big show ?thesis by simp
      qed
    qed
  qed
qed

lemma annotate_loop_foldl:
  "snd (annotate_loop san eng depth tn ti tm tb st vs) =
     foldl (\<lambda>s m. snd (annotate_ply san eng depth tn ti tm tb s m)) st (mainline vs)"
proof (induction san eng depth tn ti tm tb st vs rule: annotate_loop.induct)
  case (1 san eng depth tn ti tm tb st)
  show ?case by simp
next
  case (2 san eng depth tn ti tm tb st m c n vs others)
  have "snd (annotate_loop san eng depth tn ti tm tb
               (snd (annotate_ply san eng depth tn ti tm tb st m)) vs) =
        foldl (\<lambda>s m. snd (annotate_ply san eng depth tn ti tm tb s m))
          (snd (annotate_ply san eng depth tn ti tm tb st m)) (mainline vs)"
    by (rule "2.IH" [OF refl]) (rule prod.collapse)
  then show ?case by (simp add: case_prod_unfold Let_def)
qed

subsection \<open>The whole loop\<close>

lemma run_plies_Nil [simp]: "run_plies san eng depth tn ti tm tb st [] = st"
  by (simp add: run_plies_def)

lemma run_plies_snoc [simp]:
  "run_plies san eng depth tn ti tm tb st (ms @ [m]) =
     snd (annotate_ply san eng depth tn ti tm tb (run_plies san eng depth tn ti tm tb st ms) m)"
  by (simp add: run_plies_def)

lemma annotate_game_run_plies:
  "snd (annotate_game san g eng depth tn ti tm tb) =
     (let st = run_plies san eng depth tn ti tm tb
                 \<lparr>cur_board = start_board g, cur_move_number = 1, cur_stats = initial_stats,
                  cur_annotated = []\<rparr> (mainline (variations g))
      in (cur_stats st, cur_annotated st))"
  by (simp add: annotate_game_def Let_def case_prod_unfold annotate_loop_foldl run_plies_def)

lemma run_plies_total_moves:
  "total_moves (cur_stats (run_plies san eng depth tn ti tm tb st ms)) =
     total_moves (cur_stats st) + int (length ms)"
  by (induction ms rule: rev_induct) (simp_all add: annotate_ply_total_moves)

lemma run_plies_player_moves:
  "moves (white (cur_stats (run_plies san eng depth tn ti tm tb st ms))) +
   moves (black (cur_stats (run_plies san eng depth tn ti tm tb st ms))) =
     moves (white (cur_stats st)) + moves (black (cur_stats st)) + int (length ms)"
proof (induction ms rule: rev_induct)
  case Nil
  show ?case by simp
next
  case (snoc m ms)
  let ?s = "run_plies san eng depth tn ti tm tb st ms"
  have "moves (white (cur_stats (snd (annotate_ply san eng depth tn ti tm tb ?s m)))) +
        moves (black (cur_stats (snd (annotate_ply san eng depth tn ti tm tb ?s m)))) =
        moves (white (cur_stats ?s)) + moves (black (cur_stats ?s)) + 1"
    using annotate_ply_moves [of san eng depth tn ti tm tb ?s m White]
      annotate_ply_moves [of san eng depth tn ti tm tb ?s m Black]
    by (cases "mover ?s") (simp_all add: player_stats_of_def)
  with snoc show ?case by simp
qed

lemma run_plies_annotated_past_warmup:
  assumes "\<forall>a \<in> set (cur_annotated st). 2 < move_number a"
  shows "\<forall>a \<in> set (cur_annotated (run_plies san eng depth tn ti tm tb st ms)). 2 < move_number a"
proof (induction ms rule: rev_induct)
  case Nil
  show ?case using assms by simp
next
  case (snoc m ms)
  let ?s = "run_plies san eng depth tn ti tm tb st ms"
  from annotate_ply_annotated_cases [of san eng depth tn ti tm tb ?s m] snoc
  show ?case by auto
qed

text \<open>With White to move at the start, the move number after \<open>k\<close> plies.\<close>

lemma run_plies_white_first:
  assumes "turn (cur_board st)" and "cur_move_number st = 1" and "cur_annotated st = []"
    and "\<forall>p n. nag_count (player_stats_of (cur_stats st) p) n = 0"
  shows "turn (cur_board (run_plies san eng depth tn ti tm tb st ms)) = even (length ms) \<and>
         cur_move_number (run_plies san eng depth tn ti tm tb st ms) = 1 + int (length ms div 2) \<and>
         (length ms \<le> 4 \<longrightarrow>
            cur_annotated (run_plies san eng depth tn ti tm tb st ms) = [] \<and>
            (\<forall>p n. nag_count (player_stats_of (cur_stats (run_plies san eng depth tn ti tm tb st ms)) p) n = 0))"
proof (induction ms rule: rev_induct)
  case Nil
  show ?case using assms by simp
next
  case (snoc m ms)
  let ?s = "run_plies san eng depth tn ti tm tb st ms"
  from snoc have t: "turn (cur_board ?s) = even (length ms)"
    and n: "cur_move_number ?s = 1 + int (length ms div 2)" by simp_all
  have t': "turn (cur_board (snd (annotate_ply san eng depth tn ti tm tb ?s m))) = even (Suc (length ms))"
    using t by (simp add: annotate_ply_board push_def)
  have n': "cur_move_number (snd (annotate_ply san eng depth tn ti tm tb ?s m)) =
              1 + int (Suc (length ms) div 2)"
    using t n by (simp add: annotate_ply_move_number)
  have w: "cur_annotated (snd (annotate_ply san eng depth tn ti tm tb ?s m)) = [] \<and>
           (\<forall>p n. nag_count (player_stats_of (cur_stats (snd (annotate_ply san eng depth tn ti tm tb ?s m))) p) n = 0)"
    if "Suc (length ms) \<le> 4"
  proof -
    from that n have "cur_move_number ?s \<le> 2" by simp
    from annotate_ply_warmup(1,2) [OF this] snoc that show ?thesis by simp
  qed
  from t' n' w show ?case by simp
qed

section \<open>The claims\<close>

text \<open>
  The win-percentage formula over the reals lies strictly between 0 and 100 and is 50 at 0.
  This is a fact of the formula only: it does not carry over to the doubles the program
  computes with, where the upper bound is reached.
\<close>

lemma win_percent_real_formula:
  "0 < centipawns_to_win_percent x \<and> centipawns_to_win_percent x < 100 \<and>
   centipawns_to_win_percent 0 = 50"
proof -
  define e where "e = exp (- 0.00368208 * x)"
  have e: "0 < e" by (simp add: e_def)
  have v: "centipawns_to_win_percent x = 100 / (1 + e)"
    unfolding centipawns_to_win_percent_def e_def [symmetric]
    using e by (simp add: field_simps)
  have "0 < centipawns_to_win_percent x \<and> centipawns_to_win_percent x < 100"
    unfolding v using e by (simp add: field_simps)
  moreover have "centipawns_to_win_percent 0 = 50"
    by (simp add: centipawns_to_win_percent_def)
  ultimately show ?thesis by simp
qed

text \<open>
  C7: the move accuracy always lies in [0,100]; it does not increase when the loss
  \<open>win_percent_before - win_percent_after\<close> grows; a negative loss counts as 0, so that
  no result exceeds the one of equal inputs, which is 103.1668 - 3.1669 = 99.9999; and at
  a loss of 100 the formula before clamping is negative and the result is 0.
\<close>

theorem move_accuracy_properties:
  "0 \<le> calculate_move_accuracy b a \<and> calculate_move_accuracy b a \<le> 100 \<and>
   (b - a \<le> b' - a' \<longrightarrow> calculate_move_accuracy b' a' \<le> calculate_move_accuracy b a) \<and>
   (b - a \<le> 0 \<longrightarrow> calculate_move_accuracy b a = calculate_move_accuracy w w) \<and>
   calculate_move_accuracy w w = 103.1668 - 3.1669 \<and>
   calculate_move_accuracy b a \<le> calculate_move_accuracy w w \<and>
   raw_accuracy 100 < 0 \<and> calculate_move_accuracy 100 0 = 0"
proof -
  have range: "0 \<le> calculate_move_accuracy b a \<and> calculate_move_accuracy b a \<le> 100"
    by (simp add: calculate_move_accuracy_raw)
  have mono: "calculate_move_accuracy b' a' \<le> calculate_move_accuracy b a"
    if "b - a \<le> b' - a'"
  proof -
    have "max 0 (b - a) \<le> max 0 (b' - a')" using that by simp
    then have "raw_accuracy (max 0 (b' - a')) \<le> raw_accuracy (max 0 (b - a))"
      by (rule raw_accuracy_antimono)
    then show ?thesis unfolding calculate_move_accuracy_raw by (rule clamp_mono)
  qed
  have eq: "calculate_move_accuracy w w = 103.1668 - 3.1669"
    by (simp add: calculate_move_accuracy_raw raw_accuracy_zero)
  have floor: "calculate_move_accuracy b a = calculate_move_accuracy w w" if "b - a \<le> 0"
  proof -
    have "max 0 (b - a) = 0" using that by simp
    then show ?thesis by (simp add: calculate_move_accuracy_raw raw_accuracy_zero)
  qed
  have top: "calculate_move_accuracy b a \<le> calculate_move_accuracy w w"
  proof -
    have "raw_accuracy (max 0 (b - a)) \<le> raw_accuracy 0"
      by (rule raw_accuracy_antimono) simp
    then have "max 0 (min 100 (raw_accuracy (max 0 (b - a)))) \<le> max 0 (min 100 (raw_accuracy 0))"
      by (rule clamp_mono)
    then show ?thesis by (simp add: calculate_move_accuracy_raw)
  qed
  have zero: "calculate_move_accuracy 100 0 = 0"
    using raw_accuracy_100_neg by (simp add: calculate_move_accuracy_raw max_def min_def)
  from range mono eq floor top zero raw_accuracy_100_neg show ?thesis by blast
qed

theorem move_accuracy_properties_witness:
  "(60 - 40 \<le> (90::real) - 10) \<and> (40 - 60 \<le> (0::real)) \<and>
   calculate_move_accuracy 90 10 \<le> calculate_move_accuracy 60 40 \<and>
   calculate_move_accuracy 40 60 = calculate_move_accuracy 50 50 \<and>
   calculate_move_accuracy 50 50 = 99.9999"
  using move_accuracy_properties [of 60 40 90 10 50]
    move_accuracy_properties [of 40 60 0 0 50]
  by simp

text \<open>The equations that evaluate a run of the analysis on a concrete game.\<close>

lemmas run_simps = annotate_game_def annotate_ply_def line_game_def list_engine_def plain_san_def
  evaluate_position_def mover_win_percent_def classify_def update_player_def push_def
  initial_stats_def initial_player_stats_def capitalize_def get_top_moves_def Let_def

text \<open>
  C10: \<open>evaluate_position\<close> returns the centipawns divided by 100 for a centipawn score,
  100 for a mate score with a positive distance, -100 for a mate score with a distance of
  0 or less (a mate score of distance 0 included), and nothing for any other score; it
  returns nothing only then.
\<close>

theorem evaluate_position_cases:
  "(analyse eng b depth = Cp c \<longrightarrow> evaluate_position eng b depth = Some (real_of_int c / 100)) \<and>
   (analyse eng b depth = Mate m \<and> 0 < m \<longrightarrow> evaluate_position eng b depth = Some 100) \<and>
   (analyse eng b depth = Mate m \<and> m \<le> 0 \<longrightarrow> evaluate_position eng b depth = Some (- 100)) \<and>
   (analyse eng b depth = Mate 0 \<longrightarrow> evaluate_position eng b depth = Some (- 100)) \<and>
   (analyse eng b depth = OtherScore \<longrightarrow> evaluate_position eng b depth = None) \<and>
   (evaluate_position eng b depth = None \<longrightarrow> analyse eng b depth = OtherScore)"
  by (cases "analyse eng b depth") (simp_all add: evaluate_position_def)

theorem evaluate_position_cases_witness:
  "evaluate_position (list_engine [Cp 35, Mate 3, Mate (- 2), Mate 0, OtherScore])
     \<lparr>turn = True, move_stack = []\<rparr> 25 = Some 0.35 \<and>
   evaluate_position (list_engine [Cp 35, Mate 3, Mate (- 2), Mate 0, OtherScore])
     \<lparr>turn = False, move_stack = [''e4'']\<rparr> 25 = Some 100 \<and>
   evaluate_position (list_engine [Cp 35, Mate 3, Mate (- 2), Mate 0, OtherScore])
     \<lparr>turn = True, move_stack = [''e4'', ''e5'']\<rparr> 25 = Some (- 100) \<and>
   evaluate_position (list_engine [Cp 35, Mate 3, Mate (- 2), Mate 0, OtherScore])
     \<lparr>turn = False, move_stack = [''e4'', ''e5'', ''Qh5'']\<rparr> 25 = Some (- 100) \<and>
   evaluate_position (list_engine [Cp 35, Mate 3, Mate (- 2), Mate 0, OtherScore])
     \<lparr>turn = True, move_stack = [''e4'', ''e5'', ''Qh5'', ''Nc6'']\<rparr> 25 = None"
  using
    evaluate_position_cases [of "list_engine [Cp 35, Mate 3, Mate (- 2), Mate 0, OtherScore]"
      "\<lparr>turn = True, move_stack = []\<rparr>" 25 35 0]
    evaluate_position_cases [of "list_engine [Cp 35, Mate 3, Mate (- 2), Mate 0, OtherScore]"
      "\<lparr>turn = False, move_stack = [''e4'']\<rparr>" 25 0 3]
    evaluate_position_cases [of "list_engine [Cp 35, Mate 3, Mate (- 2), Mate 0, OtherScore]"
      "\<lparr>turn = True, move_stack = [''e4'', ''e5'']\<rparr>" 25 0 "- 2"]
    evaluate_position_cases [of "list_engine [Cp 35, Mate 3, Mate (- 2), Mate 0, OtherScore]"
      "\<lparr>turn = False, move_stack = [''e4'', ''e5'', ''Qh5'']\<rparr>" 25 0 0]
    evaluate_position_cases [of "list_engine [Cp 35, Mate 3, Mate (- 2), Mate 0, OtherScore]"
      "\<lparr>turn = True, move_stack = [''e4'', ''e5'', ''Qh5'', ''Nc6'']\<rparr>" 25 0 0]
  by (simp add: list_engine_def)

text \<open>
  C8: the statistics of a player are finalized without ever dividing by zero: the average
  accuracy is the accuracy sum over the accuracy count when the count is positive and the
  marker N/A otherwise, the error rate is 100 times the number of annotations over the
  move count when the move count is positive and 0 otherwise; the statistics of a player,
  the comparison and the whole report are produced without an error.
\<close>

theorem finalize_never_divides_by_zero:
  "average_accuracy ps =
     Inr (if accuracy_count ps > 0
          then Some (total_accuracy ps / real_of_int (accuracy_count ps)) else None) \<and>
   error_rate ps =
     Inr (if moves ps > 0
          then 100 * real_of_int (nag_count ps 6 + nag_count ps 2 + nag_count ps 4)
                 / real_of_int (moves ps)
          else 0) \<and>
   isl (player_statistics ps) = False \<and>
   (if accuracy_count ps > 0
    then last (projr (player_statistics ps)) =
           AverageAccuracyLine (total_accuracy ps / real_of_int (accuracy_count ps))
    else last (projr (player_statistics ps)) = AverageAccuracyNA) \<and>
   isl (comparison s) = False \<and> isl (generate_report s am) = False"
proof -
  obtain ls where ls: "nag_lines ps [6, 2, 4] = Inr ls" using nag_lines_ok by blast
  have a: "(if accuracy_count ps > 0
    then last (projr (player_statistics ps)) =
           AverageAccuracyLine (total_accuracy ps / real_of_int (accuracy_count ps))
    else last (projr (player_statistics ps)) = AverageAccuracyNA)"
    by (simp add: player_statistics_def error_rate_ok average_accuracy_ok bind_result_def ls
        del: nag_lines.simps)
  have e: "error_rate ps =
     Inr (if moves ps > 0
          then 100 * real_of_int (nag_count ps 6 + nag_count ps 2 + nag_count ps 4)
                 / real_of_int (moves ps)
          else 0)"
    by (simp add: error_rate_ok total_annotations_def)
  obtain l where "player_statistics ps = Inr l" using player_statistics_ok by blast
  moreover obtain c where "comparison s = Inr c" using comparison_ok by blast
  moreover obtain r where "generate_report s am = Inr r" using generate_report_ok by blast
  ultimately show ?thesis using a e by (simp add: average_accuracy_ok)
qed

text \<open>
  C5: with thresholds in the order 0 < inaccuracy < mistake < blunder, a change equal to
  minus the blunder threshold is a blunder, one equal to minus the mistake threshold a
  mistake, one equal to minus the inaccuracy threshold an inaccuracy, and any change above
  minus the inaccuracy threshold is not flagged; a ply past the warm-up whose change is
  minus the blunder threshold is annotated "??", and one whose change is above minus the
  inaccuracy threshold adds no annotated move.
\<close>

theorem classify_boundaries:
  assumes "0 < ti" and "ti < tm" and "tm < tb"
  shows "classify ti tm tb (- tb) = Some (4, ''??'') \<and>
         classify ti tm tb (- tm) = Some (2, ''?'') \<and>
         classify ti tm tb (- ti) = Some (6, ''?!'') \<and>
         (- ti < change \<longrightarrow> classify ti tm tb change = None) \<and>
         (2 < cur_move_number st \<and>
          evaluate_position eng (cur_board st) depth = Some eb \<and>
          evaluate_position eng (push (cur_board st) m) depth = Some ea \<and>
          swing (mover st) eb ea = - tb \<longrightarrow>
            map annotation (cur_annotated (snd (annotate_ply san eng depth tn ti tm tb st m))) =
              map annotation (cur_annotated st) @ [''??'']) \<and>
         (evaluate_position eng (cur_board st) depth = Some eb \<and>
          evaluate_position eng (push (cur_board st) m) depth = Some ea \<and>
          - ti < swing (mover st) eb ea \<longrightarrow>
            cur_annotated (snd (annotate_ply san eng depth tn ti tm tb st m)) = cur_annotated st)"
proof -
  have b: "classify ti tm tb (- tb) = Some (4, ''??'')" by (simp add: classify_def)
  have m: "classify ti tm tb (- tm) = Some (2, ''?'')" using assms by (simp add: classify_def)
  have i: "classify ti tm tb (- ti) = Some (6, ''?!'')" using assms by (simp add: classify_def)
  have n: "classify ti tm tb c = None" if "- ti < c" for c
    using assms that by (simp add: classify_def)
  have pb: "map annotation (cur_annotated (snd (annotate_ply san eng depth tn ti tm tb st m))) =
              map annotation (cur_annotated st) @ [''??'']"
    if "2 < cur_move_number st" "evaluate_position eng (cur_board st) depth = Some eb"
      "evaluate_position eng (push (cur_board st) m) depth = Some ea"
      "swing (mover st) eb ea = - tb"
  proof -
    have "classify ti tm tb (swing (mover st) eb ea) = Some (4, ''??'')"
      using that(4) b by simp
    from annotate_ply_classified(1) [OF that(1) that(2) that(3) this] show ?thesis by simp
  qed
  have pn: "cur_annotated (snd (annotate_ply san eng depth tn ti tm tb st m)) = cur_annotated st"
    if "evaluate_position eng (cur_board st) depth = Some eb"
      "evaluate_position eng (push (cur_board st) m) depth = Some ea"
      "- ti < swing (mover st) eb ea"
    using annotate_ply_unclassified(1) [OF that(1) that(2) n [OF that(3)]] .
  from b m i n pb pn show ?thesis by blast
qed

theorem classify_boundaries_witness:
  "(0::real) < 0.4 \<and> (0.4::real) < 0.8 \<and> (0.8::real) < 1.8 \<and>
   classify 0.4 0.8 1.8 (- 1.8) = Some (4, ''??'') \<and>
   classify 0.4 0.8 1.8 (- 0.8) = Some (2, ''?'') \<and>
   classify 0.4 0.8 1.8 (- 0.4) = Some (6, ''?!'') \<and>
   classify 0.4 0.8 1.8 0 = None \<and>
   map annotation (cur_annotated (snd (annotate_ply plain_san
     (list_engine [Cp 0, Cp (- 180)]) 25 5 0.4 0.8 1.8 warm_state ''Qh5''))) = [''??''] \<and>
   cur_annotated (snd (annotate_ply plain_san
     (list_engine [Cp 0, Cp 30]) 25 5 0.4 0.8 1.8 warm_state ''Nf3'')) = []"
proof -
  have h: "(0::real) < 0.4" "(0.4::real) < 0.8" "(0.8::real) < 1.8" by simp_all
  have e0: "evaluate_position (list_engine [Cp 0, Cp (- 180)]) (cur_board warm_state) 25 = Some 0"
    by (simp add: evaluate_position_def list_engine_def warm_state_def)
  have e1: "evaluate_position (list_engine [Cp 0, Cp (- 180)])
              (push (cur_board warm_state) ''Qh5'') 25 = Some (- 1.8)"
    by (simp add: evaluate_position_def list_engine_def warm_state_def push_def)
  have f0: "evaluate_position (list_engine [Cp 0, Cp 30]) (cur_board warm_state) 25 = Some 0"
    by (simp add: evaluate_position_def list_engine_def warm_state_def)
  have f1: "evaluate_position (list_engine [Cp 0, Cp 30])
              (push (cur_board warm_state) ''Nf3'') 25 = Some 0.3"
    by (simp add: evaluate_position_def list_engine_def warm_state_def push_def)
  have s: "swing (mover warm_state) 0 (- 1.8) = - 1.8" "swing (mover warm_state) 0 0.3 = 0.3"
    by (simp_all add: swing_def mover_def warm_state_def)
  have mn: "2 < cur_move_number warm_state" "cur_annotated warm_state = []"
    by (simp_all add: warm_state_def)
  from classify_boundaries [OF h, of 0 warm_state "list_engine [Cp 0, Cp (- 180)]" 25 0
      "''Qh5''" "- 1.8" plain_san 5]
    classify_boundaries [OF h, of 0 warm_state "list_engine [Cp 0, Cp 30]" 25 0
      "''Nf3''" "0.3" plain_san 5]
    e0 e1 f0 f1 s mn
  show ?thesis by simp
qed

lemma run_plies_Cons:
  "run_plies san eng depth tn ti tm tb st (m # ms) =
     run_plies san eng depth tn ti tm tb (snd (annotate_ply san eng depth tn ti tm tb st m)) ms"
  by (simp add: run_plies_def)

lemma annotate_game_total_moves:
  "total_moves (fst (snd (annotate_game san g eng depth tn ti tm tb))) =
     int (length (mainline (variations g)))"
  by (simp add: annotate_game_run_plies Let_def run_plies_total_moves initial_stats_def)

lemma annotate_game_player_moves:
  "moves (white (fst (snd (annotate_game san g eng depth tn ti tm tb)))) +
   moves (black (fst (snd (annotate_game san g eng depth tn ti tm tb)))) =
     int (length (mainline (variations g)))"
  using run_plies_player_moves [of san eng depth tn ti tm tb
      "\<lparr>cur_board = start_board g, cur_move_number = 1, cur_stats = initial_stats,
        cur_annotated = []\<rparr>" "mainline (variations g)"]
  by (simp add: annotate_game_run_plies Let_def initial_stats_def initial_player_stats_def)

text \<open>
  C4: when the evaluation before or after a ply is unavailable, the ply still adds one to
  the move count of the mover and to the total move count, leaves the accuracy sum and
  count and the annotation counts of both players as they were, adds no annotated move
  and leaves the node without a NAG; the loop goes on with the remaining plies, and at the
  end of any game the total move count is the number of plies of the main line, which is
  also the sum of the move counts of the two players.
\<close>

theorem unavailable_ply_counted:
  assumes "evaluate_position eng (cur_board st) depth = None \<or>
           evaluate_position eng (push (cur_board st) m) depth = None"
  shows "moves (player_stats_of (cur_stats (snd (annotate_ply san eng depth tn ti tm tb st m))) (mover st))
           = moves (player_stats_of (cur_stats st) (mover st)) + 1 \<and>
         total_moves (cur_stats (snd (annotate_ply san eng depth tn ti tm tb st m)))
           = total_moves (cur_stats st) + 1 \<and>
         total_accuracy (player_stats_of (cur_stats (snd (annotate_ply san eng depth tn ti tm tb st m))) p)
           = total_accuracy (player_stats_of (cur_stats st) p) \<and>
         accuracy_count (player_stats_of (cur_stats (snd (annotate_ply san eng depth tn ti tm tb st m))) p)
           = accuracy_count (player_stats_of (cur_stats st) p) \<and>
         nag_count (player_stats_of (cur_stats (snd (annotate_ply san eng depth tn ti tm tb st m))) p)
           = nag_count (player_stats_of (cur_stats st) p) \<and>
         cur_annotated (snd (annotate_ply san eng depth tn ti tm tb st m)) = cur_annotated st \<and>
         fst (annotate_ply san eng depth tn ti tm tb st m) = {} \<and>
         run_plies san eng depth tn ti tm tb st (m # ms) =
           run_plies san eng depth tn ti tm tb
             (snd (annotate_ply san eng depth tn ti tm tb st m)) ms \<and>
         total_moves (fst (snd (annotate_game san g eng depth tn ti tm tb))) =
           int (length (mainline (variations g))) \<and>
         moves (white (fst (snd (annotate_game san g eng depth tn ti tm tb)))) +
         moves (black (fst (snd (annotate_game san g eng depth tn ti tm tb)))) =
           int (length (mainline (variations g)))"
  by (simp add: annotate_ply_unavailable [OF assms] annotate_ply_moves
      annotate_ply_total_moves run_plies_Cons annotate_game_total_moves
      annotate_game_player_moves)

theorem unavailable_ply_counted_witness:
  "evaluate_position (list_engine [Cp 0, OtherScore, Cp (- 500)]) (cur_board warm_state) 25 = Some 0 \<and>
   evaluate_position (list_engine [Cp 0, OtherScore, Cp (- 500)])
     (push (cur_board warm_state) ''Qh5'') 25 = None \<and>
   moves (white (cur_stats (snd (annotate_ply plain_san
     (list_engine [Cp 0, OtherScore, Cp (- 500)]) 25 5 0.4 0.8 1.8 warm_state ''Qh5'')))) = 1 \<and>
   total_moves (cur_stats (snd (annotate_ply plain_san
     (list_engine [Cp 0, OtherScore, Cp (- 500)]) 25 5 0.4 0.8 1.8 warm_state ''Qh5''))) = 1 \<and>
   accuracy_count (white (cur_stats (snd (annotate_ply plain_san
     (list_engine [Cp 0, OtherScore, Cp (- 500)]) 25 5 0.4 0.8 1.8 warm_state ''Qh5'')))) = 0 \<and>
   total_accuracy (white (cur_stats (snd (annotate_ply plain_san
     (list_engine [Cp 0, OtherScore, Cp (- 500)]) 25 5 0.4 0.8 1.8 warm_state ''Qh5'')))) = 0 \<and>
   cur_annotated (snd (annotate_ply plain_san
     (list_engine [Cp 0, OtherScore, Cp (- 500)]) 25 5 0.4 0.8 1.8 warm_state ''Qh5'')) = [] \<and>
   total_moves (fst (snd (annotate_game plain_san (line_game True [''e4'', ''e5'', ''Qh5''])
     (list_engine [Cp 0, OtherScore, Cp (- 500)]) 25 5 0.4 0.8 1.8))) = 3"
proof -
  have e1: "evaluate_position (list_engine [Cp 0, OtherScore, Cp (- 500)])
     (push (cur_board warm_state) ''Qh5'') 25 = None"
    by (simp add: evaluate_position_def list_engine_def warm_state_def push_def)
  have e0: "evaluate_position (list_engine [Cp 0, OtherScore, Cp (- 500)]) (cur_board warm_state) 25 = Some 0"
    by (simp add: evaluate_position_def list_engine_def warm_state_def)
  have m: "mover warm_state = White" by (simp add: mover_def warm_state_def)
  have s: "cur_stats warm_state = initial_stats" "cur_annotated warm_state = []"
    by (simp_all add: warm_state_def)
  have l: "mainline (variations (line_game True [''e4'', ''e5'', ''Qh5''])) = [''e4'', ''e5'', ''Qh5'']"
    by (simp add: line_game_def)
  from unavailable_ply_counted [OF disjI2 [OF e1], of plain_san 5 "0.4" "0.8" "1.8" White "[]"
      "line_game True [''e4'', ''e5'', ''Qh5'']"] e0 e1 m s l
  show ?thesis
    by (simp add: player_stats_of_def initial_stats_def initial_player_stats_def)
qed

lemma annotate_game_past_warmup:
  "\<forall>a \<in> set (snd (snd (annotate_game san g eng depth tn ti tm tb))). 2 < move_number a"
  using run_plies_annotated_past_warmup [of
      "\<lparr>cur_board = start_board g, cur_move_number = 1, cur_stats = initial_stats,
        cur_annotated = []\<rparr>" san eng depth tn ti tm tb "mainline (variations g)"]
  by (simp add: annotate_game_run_plies Let_def)

lemma initial_nag_count [simp]: "nag_count (player_stats_of initial_stats p) n = 0"
  by (cases p) (simp_all add: player_stats_of_def initial_stats_def initial_player_stats_def)

lemma first_four_plies_white_first:
  assumes "turn (start_board g)" and "length ms \<le> 4"
  shows "cur_annotated (run_plies san eng depth tn ti tm tb
           \<lparr>cur_board = start_board g, cur_move_number = 1, cur_stats = initial_stats,
            cur_annotated = []\<rparr> ms) = []"
  using run_plies_white_first [of
      "\<lparr>cur_board = start_board g, cur_move_number = 1, cur_stats = initial_stats,
        cur_annotated = []\<rparr>" san eng depth tn ti tm tb ms] assms
  by simp

lemma classify_flagged:
  assumes "change \<le> - ti"
  shows "classify ti tm tb change =
           Some (if change \<le> - tb then 4 else if change \<le> - tm then 2 else 6,
                 if change \<le> - tb then ''??'' else if change \<le> - tm then ''?'' else ''?!'')"
  using assms by (simp add: classify_def)

text \<open>The side to move and the move number after a list of plies, from any loop state.\<close>

lemma run_plies_move_number:
  "turn (cur_board (run_plies san eng depth tn ti tm tb st ms)) =
     (turn (cur_board st) = even (length ms)) \<and>
   cur_move_number (run_plies san eng depth tn ti tm tb st ms) =
     cur_move_number st + int ((length ms + (if turn (cur_board st) then 0 else 1)) div 2)"
proof (induction ms rule: rev_induct)
  case Nil
  show ?case by simp
next
  case (snoc m ms)
  let ?s = "run_plies san eng depth tn ti tm tb st ms"
  from snoc have t: "turn (cur_board ?s) = (turn (cur_board st) = even (length ms))"
    and n: "cur_move_number ?s =
              cur_move_number st + int ((length ms + (if turn (cur_board st) then 0 else 1)) div 2)"
    by simp_all
  have t': "turn (cur_board (snd (annotate_ply san eng depth tn ti tm tb ?s m))) =
              (turn (cur_board st) = even (Suc (length ms)))"
    using t by (auto simp add: annotate_ply_board push_def)
  have n': "cur_move_number (snd (annotate_ply san eng depth tn ti tm tb ?s m)) =
              cur_move_number st +
              int ((Suc (length ms) + (if turn (cur_board st) then 0 else 1)) div 2)"
    using t n by (cases "turn (cur_board st)") (auto simp add: annotate_ply_move_number elim: oddE)
  from t' n' show ?case by simp
qed

lemma annotate_game_initial_loop_state:
  "snd (annotate_game san g eng depth tn ti tm tb) =
     (cur_stats (run_plies san eng depth tn ti tm tb (initial_loop_state g)
                   (mainline (variations g))),
      cur_annotated (run_plies san eng depth tn ti tm tb (initial_loop_state g)
                       (mainline (variations g))))"
  by (simp add: annotate_game_run_plies Let_def initial_loop_state_def)

text \<open>
  C2, as the code has it: the warm-up is counted in move numbers, not in plies. The
  loop of \<open>annotate_game\<close> starts with move number 1 and runs its body once for each ply of
  the main line; after \<open>k\<close> plies the move number is \<open>1 + k div 2\<close> when White moves first
  (\<open>1 + (k + 1) div 2\<close> when Black does), so that with White to move at the start the plies
  1 to 4 carry the move numbers 1, 1, 2, 2. A ply whose move number is 1 or 2 never adds
  an annotated move or an annotation count and leaves its node without a NAG, whatever
  the change of evaluation. A ply whose move number is above 2, with both evaluations
  defined and a change for the mover of at most minus the inaccuracy threshold, appends
  one annotated move (with that move number, the mover, the move, the symbol of the
  first threshold test that holds, the change and the accuracy), gives the node the NAG
  of that test and adds one to the mover's count of exactly that NAG, the counts of the
  other player staying as they were. In every game all annotated moves have a move
  number above 2; with White to move at the start the first four plies add none, so a
  game of at most four plies has no annotated move.
\<close>

theorem warmup_covers_two_full_moves:
  "snd (annotate_game san g eng depth tn ti tm tb) =
     (cur_stats (run_plies san eng depth tn ti tm tb (initial_loop_state g)
                   (mainline (variations g))),
      cur_annotated (run_plies san eng depth tn ti tm tb (initial_loop_state g)
                       (mainline (variations g)))) \<and>
   run_plies san eng depth tn ti tm tb (initial_loop_state g) (ms @ [m']) =
     snd (annotate_ply san eng depth tn ti tm tb
            (run_plies san eng depth tn ti tm tb (initial_loop_state g) ms) m') \<and>
   cur_move_number (run_plies san eng depth tn ti tm tb (initial_loop_state g) ms) =
     1 + int ((length ms + (if turn (start_board g) then 0 else 1)) div 2) \<and>
   (cur_move_number st \<le> 2 \<longrightarrow>
      cur_annotated (snd (annotate_ply san eng depth tn ti tm tb st m)) = cur_annotated st \<and>
      nag_count (player_stats_of (cur_stats (snd (annotate_ply san eng depth tn ti tm tb st m))) p)
        = nag_count (player_stats_of (cur_stats st) p) \<and>
      fst (annotate_ply san eng depth tn ti tm tb st m) = {}) \<and>
   (2 < cur_move_number st \<and>
    evaluate_position eng (cur_board st) depth = Some eb \<and>
    evaluate_position eng (push (cur_board st) m) depth = Some ea \<and>
    swing (mover st) eb ea \<le> - ti \<longrightarrow>
      cur_annotated (snd (annotate_ply san eng depth tn ti tm tb st m)) =
        cur_annotated st @
          [\<lparr>move_number = cur_move_number st, player = capitalize (mover st),
            move = san (cur_board st) m,
            annotation = (if swing (mover st) eb ea \<le> - tb then ''??''
                          else if swing (mover st) eb ea \<le> - tm then ''?'' else ''?!''),
            eval_change = swing (mover st) eb ea,
            move_accuracy =
              Some (calculate_move_accuracy
                (centipawns_to_win_percent (if mover st = Black then - (eb * 100) else eb * 100))
                (centipawns_to_win_percent (if mover st = Black then - (ea * 100) else ea * 100)))\<rparr>] \<and>
      nag_count (player_stats_of (cur_stats (snd (annotate_ply san eng depth tn ti tm tb st m))) p) =
        (if p = mover st
         then (nag_count (player_stats_of (cur_stats st) p))
                ((if swing (mover st) eb ea \<le> - tb then 4
                  else if swing (mover st) eb ea \<le> - tm then 2 else 6) :=
                 nag_count (player_stats_of (cur_stats st) p)
                   (if swing (mover st) eb ea \<le> - tb then 4
                    else if swing (mover st) eb ea \<le> - tm then 2 else 6) + 1)
         else nag_count (player_stats_of (cur_stats st) p)) \<and>
      fst (annotate_ply san eng depth tn ti tm tb st m) =
        {if swing (mover st) eb ea \<le> - tb then 4
         else if swing (mover st) eb ea \<le> - tm then 2 else 6}) \<and>
   (\<forall>a \<in> set (snd (snd (annotate_game san g eng depth tn ti tm tb))). 2 < move_number a) \<and>
   (turn (start_board g) \<and> length ms \<le> 4 \<longrightarrow>
      cur_annotated (run_plies san eng depth tn ti tm tb (initial_loop_state g) ms) = []) \<and>
   (turn (start_board g) \<and> length (mainline (variations g)) \<le> 4 \<longrightarrow>
      snd (snd (annotate_game san g eng depth tn ti tm tb)) = [])"
proof -
  have n: "cur_move_number (run_plies san eng depth tn ti tm tb (initial_loop_state g) ms) =
     1 + int ((length ms + (if turn (start_board g) then 0 else 1)) div 2)"
    using run_plies_move_number [of san eng depth tn ti tm tb "initial_loop_state g" ms]
    by (simp add: initial_loop_state_def)
  have a: "cur_annotated (snd (annotate_ply san eng depth tn ti tm tb st m)) = cur_annotated st \<and>
      nag_count (player_stats_of (cur_stats (snd (annotate_ply san eng depth tn ti tm tb st m))) p)
        = nag_count (player_stats_of (cur_stats st) p) \<and>
      fst (annotate_ply san eng depth tn ti tm tb st m) = {}"
    if "cur_move_number st \<le> 2"
    using annotate_ply_warmup [OF that] by simp
  have b: "cur_annotated (snd (annotate_ply san eng depth tn ti tm tb st m)) =
        cur_annotated st @
          [\<lparr>move_number = cur_move_number st, player = capitalize (mover st),
            move = san (cur_board st) m,
            annotation = (if swing (mover st) eb ea \<le> - tb then ''??''
                          else if swing (mover st) eb ea \<le> - tm then ''?'' else ''?!''),
            eval_change = swing (mover st) eb ea,
            move_accuracy =
              Some (calculate_move_accuracy
                (centipawns_to_win_percent (if mover st = Black then - (eb * 100) else eb * 100))
                (centipawns_to_win_percent (if mover st = Black then - (ea * 100) else ea * 100)))\<rparr>] \<and>
      nag_count (player_stats_of (cur_stats (snd (annotate_ply san eng depth tn ti tm tb st m))) p) =
        (if p = mover st
         then (nag_count (player_stats_of (cur_stats st) p))
                ((if swing (mover st) eb ea \<le> - tb then 4
                  else if swing (mover st) eb ea \<le> - tm then 2 else 6) :=
                 nag_count (player_stats_of (cur_stats st) p)
                   (if swing (mover st) eb ea \<le> - tb then 4
                    else if swing (mover st) eb ea \<le> - tm then 2 else 6) + 1)
         else nag_count (player_stats_of (cur_stats st) p)) \<and>
      fst (annotate_ply san eng depth tn ti tm tb st m) =
        {if swing (mover st) eb ea \<le> - tb then 4
         else if swing (mover st) eb ea \<le> - tm then 2 else 6}"
    if h: "2 < cur_move_number st" "evaluate_position eng (cur_board st) depth = Some eb"
      "evaluate_position eng (push (cur_board st) m) depth = Some ea"
      "swing (mover st) eb ea \<le> - ti"
    using annotate_ply_classified [OF h(1) h(2) h(3) classify_flagged [OF h(4)]] by simp
  have d: "cur_annotated (run_plies san eng depth tn ti tm tb (initial_loop_state g) ms) = []"
    if "turn (start_board g)" "length ms \<le> 4"
    using first_four_plies_white_first [OF that] by (simp add: initial_loop_state_def)
  have e: "snd (snd (annotate_game san g eng depth tn ti tm tb)) = []"
    if "turn (start_board g)" "length (mainline (variations g)) \<le> 4"
    using first_four_plies_white_first [OF that, of san eng depth tn ti tm tb]
    by (simp add: annotate_game_run_plies Let_def)
  have r: "run_plies san eng depth tn ti tm tb (initial_loop_state g) (ms @ [m']) =
     snd (annotate_ply san eng depth tn ti tm tb
            (run_plies san eng depth tn ti tm tb (initial_loop_state g) ms) m')"
    by simp
  from n a b d e r annotate_game_past_warmup [of san g eng depth tn ti tm tb]
    annotate_game_initial_loop_state [of san g eng depth tn ti tm tb]
  show ?thesis by blast
qed

theorem warmup_covers_two_full_moves_witness:
  "six_ply_state =
     run_plies plain_san (list_engine mistake_scores) 25 5 0.4 0.8 1.8
       (initial_loop_state six_ply_game) (take 4 (mainline (variations six_ply_game))) \<and>
   cur_move_number six_ply_state = 3 \<and>
   evaluate_position (list_engine mistake_scores) (cur_board six_ply_state) 25 = Some 0 \<and>
   evaluate_position (list_engine mistake_scores) (push (cur_board six_ply_state) ''Ke2'') 25
     = Some (- 1) \<and>
   swing (mover six_ply_state) 0 (- 1) \<le> - 0.4 \<and>
   map (\<lambda>a. (move_number a, player a, move a, annotation a, eval_change a))
     (cur_annotated (snd (annotate_ply plain_san (list_engine mistake_scores) 25 5 0.4 0.8 1.8
        six_ply_state ''Ke2''))) = [(3, ''White'', ''Ke2'', ''?'', - 1)] \<and>
   nag_count (white (cur_stats (snd (annotate_ply plain_san (list_engine mistake_scores) 25 5
     0.4 0.8 1.8 six_ply_state ''Ke2'')))) 2 = 1 \<and>
   nag_count (white (cur_stats (snd (annotate_ply plain_san (list_engine mistake_scores) 25 5
     0.4 0.8 1.8 six_ply_state ''Ke2'')))) 6 = 0 \<and>
   nag_count (white (cur_stats (snd (annotate_ply plain_san (list_engine mistake_scores) 25 5
     0.4 0.8 1.8 six_ply_state ''Ke2'')))) 4 = 0 \<and>
   nag_count (black (cur_stats (snd (annotate_ply plain_san (list_engine mistake_scores) 25 5
     0.4 0.8 1.8 six_ply_state ''Ke2'')))) 2 = 0 \<and>
   fst (annotate_ply plain_san (list_engine mistake_scores) 25 5 0.4 0.8 1.8
     six_ply_state ''Ke2'') = {2} \<and>
   cur_move_number (initial_loop_state six_ply_game) \<le> 2 \<and>
   cur_annotated (snd (annotate_ply plain_san (list_engine [Cp 0, Cp (- 500)]) 25 5
     0.4 0.8 1.8 (initial_loop_state six_ply_game) ''e4'')) = [] \<and>
   turn (start_board synthetic_game) \<and>
   length (mainline (variations synthetic_game)) \<le> 4 \<and>
   snd (snd (annotate_game plain_san synthetic_game synthetic_engine 25 5 0.4 0.8 1.8)) = []"
proof -
  have r: "six_ply_state =
     run_plies plain_san (list_engine mistake_scores) 25 5 0.4 0.8 1.8
       (initial_loop_state six_ply_game) (take 4 (mainline (variations six_ply_game)))"
    by (simp add: six_ply_state_def six_ply_game_def line_game_def)
  have t: "turn (start_board six_ply_game)"
    by (simp add: six_ply_game_def line_game_def)
  have st: "cur_board six_ply_state = \<lparr>turn = True, move_stack = [''e4'', ''e5'', ''Nf3'', ''Nc6'']\<rparr>"
    "cur_annotated six_ply_state = []"
    "nag_count (white (cur_stats six_ply_state)) = (\<lambda>_. 0)"
    "nag_count (black (cur_stats six_ply_state)) = (\<lambda>_. 0)"
    by (simp_all add: six_ply_state_def run_plies_def initial_loop_state_def six_ply_game_def
        mistake_scores_def run_simps)
  have e0: "evaluate_position (list_engine mistake_scores) (cur_board six_ply_state) 25 = Some 0"
    by (simp add: st evaluate_position_def list_engine_def mistake_scores_def)
  have e1: "evaluate_position (list_engine mistake_scores) (push (cur_board six_ply_state) ''Ke2'') 25
     = Some (- 1)"
    by (simp add: st evaluate_position_def list_engine_def mistake_scores_def push_def)
  have m: "mover six_ply_state = White" by (simp add: mover_def st)
  have s: "swing (mover six_ply_state) 0 (- 1) \<le> - 0.4" by (simp add: swing_def m)
  have i: "cur_move_number (initial_loop_state six_ply_game) \<le> 2"
    "cur_annotated (initial_loop_state six_ply_game) = []"
    by (simp_all add: initial_loop_state_def)
  have g: "turn (start_board synthetic_game)" "length (mainline (variations synthetic_game)) \<le> 4"
    by (simp_all add: synthetic_game_def line_game_def)
  note w = warmup_covers_two_full_moves [where san = plain_san and g = six_ply_game
      and eng = "list_engine mistake_scores" and depth = 25 and tn = 5 and ti = "0.4"
      and tm = "0.8" and tb = "1.8" and ms = "[''e4'', ''e5'', ''Nf3'', ''Nc6'']"
      and st = six_ply_state and m = "''Ke2''" and eb = 0 and ea = "- 1"]
  from w [where p = White] t
  have n: "cur_move_number six_ply_state = 3"
    by (simp add: six_ply_state_def)
  from w [where p = White] n e0 e1 s m st
  have 1: "map (\<lambda>a. (move_number a, player a, move a, annotation a, eval_change a))
     (cur_annotated (snd (annotate_ply plain_san (list_engine mistake_scores) 25 5 0.4 0.8 1.8
        six_ply_state ''Ke2''))) = [(3, ''White'', ''Ke2'', ''?'', - 1)] \<and>
   nag_count (white (cur_stats (snd (annotate_ply plain_san (list_engine mistake_scores) 25 5
     0.4 0.8 1.8 six_ply_state ''Ke2'')))) 2 = 1 \<and>
   nag_count (white (cur_stats (snd (annotate_ply plain_san (list_engine mistake_scores) 25 5
     0.4 0.8 1.8 six_ply_state ''Ke2'')))) 6 = 0 \<and>
   nag_count (white (cur_stats (snd (annotate_ply plain_san (list_engine mistake_scores) 25 5
     0.4 0.8 1.8 six_ply_state ''Ke2'')))) 4 = 0 \<and>
   fst (annotate_ply plain_san (list_engine mistake_scores) 25 5 0.4 0.8 1.8
     six_ply_state ''Ke2'') = {2}"
    by (simp add: player_stats_of_def capitalize_def plain_san_def swing_def)
  from w [where p = Black] n e0 e1 s m st
  have 2: "nag_count (black (cur_stats (snd (annotate_ply plain_san (list_engine mistake_scores) 25 5
     0.4 0.8 1.8 six_ply_state ''Ke2'')))) 2 = 0"
    by (simp add: player_stats_of_def)
  from warmup_covers_two_full_moves [where san = plain_san and g = synthetic_game
      and eng = "list_engine [Cp 0, Cp (- 500)]" and depth = 25 and tn = 5 and ti = "0.4"
      and tm = "0.8" and tb = "1.8" and st = "initial_loop_state six_ply_game"
      and m = "''e4''" and p = White] i
  have 3: "cur_annotated (snd (annotate_ply plain_san (list_engine [Cp 0, Cp (- 500)]) 25 5
     0.4 0.8 1.8 (initial_loop_state six_ply_game) ''e4'')) = []"
    by simp
  from warmup_covers_two_full_moves [where san = plain_san and g = synthetic_game
      and eng = synthetic_engine and depth = 25 and tn = 5 and ti = "0.4"
      and tm = "0.8" and tb = "1.8"] g
  have 4: "snd (snd (annotate_game plain_san synthetic_game synthetic_engine 25 5 0.4 0.8 1.8)) = []"
    by simp
  from r n e0 e1 s 1 2 3 4 i g show ?thesis by simp
qed

text \<open>
  A third ply is not past the warm-up: in a game of three plies White's second move loses
  five pawns, both evaluations are defined, and yet no annotated move is produced and no
  annotation is counted.
\<close>

theorem third_ply_not_classified:
  "evaluate_position (list_engine [Cp 0, Cp 0, Cp 0, Cp (- 500)])
     \<lparr>turn = True, move_stack = [''f3'', ''e5'']\<rparr> 25 = Some 0 \<and>
   evaluate_position (list_engine [Cp 0, Cp 0, Cp 0, Cp (- 500)])
     \<lparr>turn = False, move_stack = [''f3'', ''e5'', ''g4'']\<rparr> 25 = Some (- 5) \<and>
   (- 5 :: real) \<le> - 0.4 \<and>
   snd (snd (annotate_game plain_san (line_game True [''f3'', ''e5'', ''g4''])
     (list_engine [Cp 0, Cp 0, Cp 0, Cp (- 500)]) 25 5 0.4 0.8 1.8)) = [] \<and>
   total_annotations (white (fst (snd (annotate_game plain_san (line_game True [''f3'', ''e5'', ''g4''])
     (list_engine [Cp 0, Cp 0, Cp 0, Cp (- 500)]) 25 5 0.4 0.8 1.8)))) = 0"
  by (simp add: run_simps total_annotations_def)

text \<open>
  C1, as the code has it: on the synthetic game of four plies with the evaluations
  0.0, 0.2, 0.1, -1.0, -3.0 and the thresholds 0.4, 0.8, 1.8, \<open>annotate_game\<close> produces no
  annotated move, since all four plies belong to the moves 1 and 2; both players have
  a move count of 2 (and an accuracy count of 2), and the total move count is 4.
\<close>

theorem synthetic_game_result:
  "snd (snd (annotate_game plain_san synthetic_game synthetic_engine 25 5 0.4 0.8 1.8)) = [] \<and>
   moves (white (fst (snd (annotate_game plain_san synthetic_game synthetic_engine 25 5 0.4 0.8 1.8)))) = 2 \<and>
   moves (black (fst (snd (annotate_game plain_san synthetic_game synthetic_engine 25 5 0.4 0.8 1.8)))) = 2 \<and>
   total_moves (fst (snd (annotate_game plain_san synthetic_game synthetic_engine 25 5 0.4 0.8 1.8))) = 4 \<and>
   accuracy_count (white (fst (snd (annotate_game plain_san synthetic_game synthetic_engine 25 5 0.4 0.8 1.8)))) = 2 \<and>
   accuracy_count (black (fst (snd (annotate_game plain_san synthetic_game synthetic_engine 25 5 0.4 0.8 1.8)))) = 2"
  by (simp add: run_simps synthetic_game_def synthetic_engine_def)

text \<open>The synthetic game does not yield two annotated moves.\<close>

theorem synthetic_game_not_two_entries:
  "length (snd (snd (annotate_game plain_san synthetic_game synthetic_engine 25 5 0.4 0.8 1.8))) \<noteq> 2"
  by (simp add: run_simps synthetic_game_def synthetic_engine_def)

text \<open>
  The same evaluations after four quiet plies, where the warm-up is over: the move of
  White (move 4, change -1.1) is a mistake, the move of Black changes the evaluation by
  +2.0 in Black's favour and is not flagged.
\<close>

lemma synthetic_evaluations_past_warmup:
  "map (\<lambda>a. (move_number a, player a, move a, annotation a, eval_change a))
     (snd (snd (annotate_game plain_san
        (line_game True [''Nf3'', ''Nf6'', ''Ng1'', ''Ng8'', ''e4'', ''e5'', ''Qh5'', ''Ke7''])
        (list_engine [Cp 0, Cp 0, Cp 0, Cp 0, Cp 0, Cp 20, Cp 10, Cp (- 100), Cp (- 300)])
        25 5 0.4 0.8 1.8))) =
   [(4, ''White'', ''Qh5'', ''?'', - 1.1)] \<and>
   swing Black (- 1) (- 3) = 2"
  by (simp add: run_simps swing_def)

lemma main_run:
  assumes "path_exists env (arg_input args)" and "path_exists env (arg_engine args)"
    and "read_game env (arg_input args) = Some g"
  shows "\<exists>rep. main env args =
           Inr (fst (annotate_game (board_san env) (clean_game_annotations g)
                       (popen_uci env (arg_engine args)) (arg_depth args) (arg_top_moves args)
                       (arg_inaccuracy args) (arg_mistake args) (arg_blunder args)),
                fst (snd (annotate_game (board_san env) (clean_game_annotations g)
                       (popen_uci env (arg_engine args)) (arg_depth args) (arg_top_moves args)
                       (arg_inaccuracy args) (arg_mistake args) (arg_blunder args))),
                snd (snd (annotate_game (board_san env) (clean_game_annotations g)
                       (popen_uci env (arg_engine args)) (arg_depth args) (arg_top_moves args)
                       (arg_inaccuracy args) (arg_mistake args) (arg_blunder args))),
                rep)"
proof -
  let ?r = "annotate_game (board_san env) (clean_game_annotations g)
              (popen_uci env (arg_engine args)) (arg_depth args) (arg_top_moves args)
              (arg_inaccuracy args) (arg_mistake args) (arg_blunder args)"
  obtain rep where "generate_report (fst (snd ?r)) (snd (snd ?r)) = Inr rep"
    using generate_report_ok by blast
  then show ?thesis using assms by (simp add: main_def Let_def case_prod_unfold)
qed

lemma main_stops_before_analysis:
  assumes "\<not> path_exists env (arg_input args) \<or> \<not> path_exists env (arg_engine args) \<or>
           read_game env (arg_input args) = None"
  shows "main env args = Inl 1"
  using assms by (auto simp add: main_def)

text \<open>
  C3, as the code has it: the thresholds are never checked. Whether the program stops
  before the analysis does not depend on the thresholds, and once the input file and the
  engine binary exist and a game is read, it runs \<open>annotate_game\<close> with the three thresholds
  as they were given, whatever their order or sign, and completes.
\<close>

theorem main_never_checks_thresholds:
  "isl (main env (args\<lparr>arg_inaccuracy := ti, arg_mistake := tm, arg_blunder := tb\<rparr>)) =
     isl (main env args) \<and>
   (path_exists env (arg_input args) \<and> path_exists env (arg_engine args) \<and>
    read_game env (arg_input args) = Some g \<longrightarrow>
      (\<exists>rep. main env (args\<lparr>arg_inaccuracy := ti, arg_mistake := tm, arg_blunder := tb\<rparr>) =
         Inr (fst (annotate_game (board_san env) (clean_game_annotations g)
                     (popen_uci env (arg_engine args)) (arg_depth args) (arg_top_moves args)
                     ti tm tb),
              fst (snd (annotate_game (board_san env) (clean_game_annotations g)
                     (popen_uci env (arg_engine args)) (arg_depth args) (arg_top_moves args)
                     ti tm tb)),
              snd (snd (annotate_game (board_san env) (clean_game_annotations g)
                     (popen_uci env (arg_engine args)) (arg_depth args) (arg_top_moves args)
                     ti tm tb)),
              rep)))"
proof -
  let ?a = "args\<lparr>arg_inaccuracy := ti, arg_mistake := tm, arg_blunder := tb\<rparr>"
  have 1: "isl (main env ?a) = isl (main env args)"
  proof (cases "path_exists env (arg_input args) \<and> path_exists env (arg_engine args) \<and>
                read_game env (arg_input args) \<noteq> None")
    case False
    then have "main env args = Inl 1" "main env ?a = Inl 1"
      by (auto intro!: main_stops_before_analysis)
    then show ?thesis by simp
  next
    case True
    then obtain g' where g': "read_game env (arg_input args) = Some g'" by auto
    from main_run [of env args g'] True g' obtain r where "main env args = Inr r" by blast
    moreover from main_run [of env ?a g'] True g' obtain r' where "main env ?a = Inr r'"
      by auto
    ultimately show ?thesis by simp
  qed
  have 2: "\<exists>rep. main env ?a =
         Inr (fst (annotate_game (board_san env) (clean_game_annotations g)
                     (popen_uci env (arg_engine args)) (arg_depth args) (arg_top_moves args)
                     ti tm tb),
              fst (snd (annotate_game (board_san env) (clean_game_annotations g)
                     (popen_uci env (arg_engine args)) (arg_depth args) (arg_top_moves args)
                     ti tm tb)),
              snd (snd (annotate_game (board_san env) (clean_game_annotations g)
                     (popen_uci env (arg_engine args)) (arg_depth args) (arg_top_moves args)
                     ti tm tb)),
              rep)"
    if "path_exists env (arg_input args)" "path_exists env (arg_engine args)"
      "read_game env (arg_input args) = Some g"
    using main_run [of env ?a g] that by simp
  from 1 2 show ?thesis by blast
qed

lemma six_ply_run:
  "map (\<lambda>a. (move_number a, player a, move a, annotation a, eval_change a))
     (snd (snd (annotate_game plain_san (clean_game_annotations six_ply_game)
        (list_engine six_ply_scores) 25 5 1.8 0.8 0.4))) =
     [(3, ''White'', ''Ke2'', ''??'', - 0.5)] \<and>
   total_moves (fst (snd (annotate_game plain_san (clean_game_annotations six_ply_game)
        (list_engine six_ply_scores) 25 5 1.8 0.8 0.4))) = 6"
  by (simp add: run_simps six_ply_game_def six_ply_scores_def clean_game_annotations_def)

theorem main_never_checks_thresholds_witness:
  "path_exists (example_env (Some six_ply_game) six_ply_scores) (arg_input (example_args 0.4 0.8 1.8)) \<and>
   path_exists (example_env (Some six_ply_game) six_ply_scores) (arg_engine (example_args 0.4 0.8 1.8)) \<and>
   read_game (example_env (Some six_ply_game) six_ply_scores) (arg_input (example_args 0.4 0.8 1.8))
     = Some six_ply_game \<and>
   (example_args 0.4 0.8 1.8)\<lparr>arg_inaccuracy := 1.8, arg_mistake := 0.8, arg_blunder := 0.4\<rparr>
     = example_args 1.8 0.8 0.4 \<and>
   isl (main (example_env (Some six_ply_game) six_ply_scores) (example_args 0.4 0.8 1.8)) = False \<and>
   isl (main (example_env (Some six_ply_game) six_ply_scores) (example_args 1.8 0.8 0.4)) = False \<and>
   map annotation (fst (snd (snd (projr
     (main (example_env (Some six_ply_game) six_ply_scores) (example_args 1.8 0.8 0.4)))))) = [''??'']"
proof -
  have a: "(example_args 0.4 0.8 1.8)\<lparr>arg_inaccuracy := 1.8, arg_mistake := 0.8, arg_blunder := 0.4\<rparr>
           = example_args 1.8 0.8 0.4"
    by (simp add: example_args_def)
  have e: "path_exists (example_env (Some six_ply_game) six_ply_scores) (arg_input (example_args 0.4 0.8 1.8))"
    "path_exists (example_env (Some six_ply_game) six_ply_scores) (arg_engine (example_args 0.4 0.8 1.8))"
    "read_game (example_env (Some six_ply_game) six_ply_scores) (arg_input (example_args 0.4 0.8 1.8))
       = Some six_ply_game"
    "board_san (example_env (Some six_ply_game) six_ply_scores) = plain_san"
    "popen_uci (example_env (Some six_ply_game) six_ply_scores) (arg_engine (example_args 0.4 0.8 1.8))
       = list_engine six_ply_scores"
    "arg_depth (example_args 0.4 0.8 1.8) = 25" "arg_top_moves (example_args 0.4 0.8 1.8) = 5"
    by (simp_all add: example_env_def example_args_def)
  from main_never_checks_thresholds [where env = "example_env (Some six_ply_game) six_ply_scores"
      and args = "example_args 0.4 0.8 1.8" and ti = "1.8" and tm = "0.8" and tb = "0.4"
      and g = six_ply_game]
    a e six_ply_run
  show ?thesis by auto
qed

text \<open>
  Thresholds in the reverse order (inaccuracy 1.8, mistake 0.8, blunder 0.4) are accepted:
  the program completes, all six plies are analyzed, and a loss of half a pawn is
  annotated as a blunder.
\<close>

theorem reversed_thresholds_accepted:
  "\<not> ((0::real) < 1.8 \<and> (1.8::real) < 0.8 \<and> (0.8::real) < 0.4) \<and>
   isl (main (example_env (Some six_ply_game) six_ply_scores) (example_args 1.8 0.8 0.4)) = False \<and>
   total_moves (fst (snd (projr
     (main (example_env (Some six_ply_game) six_ply_scores) (example_args 1.8 0.8 0.4))))) = 6 \<and>
   map annotation (fst (snd (snd (projr
     (main (example_env (Some six_ply_game) six_ply_scores) (example_args 1.8 0.8 0.4)))))) = [''??'']"
proof -
  have e: "path_exists (example_env (Some six_ply_game) six_ply_scores) (arg_input (example_args 1.8 0.8 0.4))"
    "path_exists (example_env (Some six_ply_game) six_ply_scores) (arg_engine (example_args 1.8 0.8 0.4))"
    "read_game (example_env (Some six_ply_game) six_ply_scores) (arg_input (example_args 1.8 0.8 0.4))
       = Some six_ply_game"
    by (simp_all add: example_env_def example_args_def)
  have v: "board_san (example_env (Some six_ply_game) six_ply_scores) = plain_san"
    "popen_uci (example_env (Some six_ply_game) six_ply_scores) (arg_engine (example_args 1.8 0.8 0.4))
       = list_engine six_ply_scores"
    "arg_depth (example_args 1.8 0.8 0.4) = 25" "arg_top_moves (example_args 1.8 0.8 0.4) = 5"
    "arg_inaccuracy (example_args 1.8 0.8 0.4) = 1.8" "arg_mistake (example_args 1.8 0.8 0.4) = 0.8"
    "arg_blunder (example_args 1.8 0.8 0.4) = 0.4"
    by (simp_all add: example_env_def example_args_def)
  from main_run [OF e] obtain rep where
    "main (example_env (Some six_ply_game) six_ply_scores) (example_args 1.8 0.8 0.4) =
       Inr (fst (annotate_game plain_san (clean_game_annotations six_ply_game)
                   (list_engine six_ply_scores) 25 5 1.8 0.8 0.4),
            fst (snd (annotate_game plain_san (clean_game_annotations six_ply_game)
                   (list_engine six_ply_scores) 25 5 1.8 0.8 0.4)),
            snd (snd (annotate_game plain_san (clean_game_annotations six_ply_game)
                   (list_engine six_ply_scores) 25 5 1.8 0.8 0.4)),
            rep)"
    unfolding v by blast
  with six_ply_run show ?thesis by auto
qed

text \<open>
  C9, as the code has it: when no game can be read from the input (the reader returns
  nothing), the program stops with exit status 1 before the analysis. A game that is read
  but has no moves is not an error: the loop runs no pass, and the program completes with
  the cleaned game, move counts of zero, no annotated move and a report.
\<close>

theorem unreadable_game_is_fatal:
  "(path_exists env (arg_input args) \<and> path_exists env (arg_engine args) \<and>
    read_game env (arg_input args) = None \<longrightarrow> main env args = Inl 1) \<and>
   (path_exists env (arg_input args) \<and> path_exists env (arg_engine args) \<and>
    read_game env (arg_input args) = Some g \<and> variations g = [] \<longrightarrow>
      (\<exists>rep. main env args = Inr (clean_game_annotations g, initial_stats, [], rep)))"
proof -
  have 1: "main env args = Inl 1"
    if "path_exists env (arg_input args)" "path_exists env (arg_engine args)"
      "read_game env (arg_input args) = None"
    using that by (simp add: main_def)
  have 2: "\<exists>rep. main env args = Inr (clean_game_annotations g, initial_stats, [], rep)"
    if h: "path_exists env (arg_input args)" "path_exists env (arg_engine args)"
      "read_game env (arg_input args) = Some g" and v: "variations g = []"
  proof -
    have "annotate_game (board_san env) (clean_game_annotations g)
            (popen_uci env (arg_engine args)) (arg_depth args) (arg_top_moves args)
            (arg_inaccuracy args) (arg_mistake args) (arg_blunder args) =
          (clean_game_annotations g, initial_stats, [])"
      using v by (simp add: annotate_game_def clean_game_annotations_def)
    with main_run [OF h] show ?thesis by simp
  qed
  from 1 2 show ?thesis by blast
qed

theorem unreadable_game_is_fatal_witness:
  "path_exists (example_env None []) (arg_input (example_args 0.4 0.8 1.8)) \<and>
   path_exists (example_env None []) (arg_engine (example_args 0.4 0.8 1.8)) \<and>
   read_game (example_env None []) (arg_input (example_args 0.4 0.8 1.8)) = None \<and>
   main (example_env None []) (example_args 0.4 0.8 1.8) = Inl 1 \<and>
   read_game (example_env (Some (line_game True [])) []) (arg_input (example_args 0.4 0.8 1.8))
     = Some (line_game True []) \<and>
   variations (line_game True []) = [] \<and>
   isl (main (example_env (Some (line_game True [])) []) (example_args 0.4 0.8 1.8)) = False \<and>
   fst (snd (projr (main (example_env (Some (line_game True [])) []) (example_args 0.4 0.8 1.8))))
     = initial_stats"
proof -
  have e: "path_exists (example_env None []) (arg_input (example_args 0.4 0.8 1.8))"
    "path_exists (example_env None []) (arg_engine (example_args 0.4 0.8 1.8))"
    "read_game (example_env None []) (arg_input (example_args 0.4 0.8 1.8)) = None"
    "path_exists (example_env (Some (line_game True [])) []) (arg_input (example_args 0.4 0.8 1.8))"
    "path_exists (example_env (Some (line_game True [])) []) (arg_engine (example_args 0.4 0.8 1.8))"
    "read_game (example_env (Some (line_game True [])) []) (arg_input (example_args 0.4 0.8 1.8))
       = Some (line_game True [])"
    "variations (line_game True []) = []"
    by (simp_all add: example_env_def example_args_def line_game_def)
  from unreadable_game_is_fatal [of "example_env None []" "example_args 0.4 0.8 1.8" "line_game True []"]
    unreadable_game_is_fatal [of "example_env (Some (line_game True [])) []"
      "example_args 0.4 0.8 1.8" "line_game True []"] e
  show ?thesis by auto
qed

text \<open>
  A game without moves is analyzed without an error: the program completes with a total
  move count of 0 and no annotated move.
\<close>

theorem game_without_moves_completes:
  "variations (line_game True []) = [] \<and>
   isl (main (example_env (Some (line_game True [])) []) (example_args 0.4 0.8 1.8)) = False \<and>
   total_moves (fst (snd (projr
     (main (example_env (Some (line_game True [])) []) (example_args 0.4 0.8 1.8))))) = 0 \<and>
   fst (snd (snd (projr
     (main (example_env (Some (line_game True [])) []) (example_args 0.4 0.8 1.8))))) = []"
proof -
  have e: "path_exists (example_env (Some (line_game True [])) []) (arg_input (example_args 0.4 0.8 1.8))"
    "path_exists (example_env (Some (line_game True [])) []) (arg_engine (example_args 0.4 0.8 1.8))"
    "read_game (example_env (Some (line_game True [])) []) (arg_input (example_args 0.4 0.8 1.8))
       = Some (line_game True [])"
    by (simp_all add: example_env_def example_args_def)
  have r: "annotate_game plain_san (clean_game_annotations (line_game True [])) (list_engine [])
             25 5 0.4 0.8 1.8 = (clean_game_annotations (line_game True []), initial_stats, [])"
    by (simp add: annotate_game_def clean_game_annotations_def line_game_def)
  have v: "board_san (example_env (Some (line_game True [])) []) = plain_san"
    "popen_uci (example_env (Some (line_game True [])) []) (arg_engine (example_args 0.4 0.8 1.8))
       = list_engine []"
    "arg_depth (example_args 0.4 0.8 1.8) = 25" "arg_top_moves (example_args 0.4 0.8 1.8) = 5"
    "arg_inaccuracy (example_args 0.4 0.8 1.8) = 0.4" "arg_mistake (example_args 0.4 0.8 1.8) = 0.8"
    "arg_blunder (example_args 0.4 0.8 1.8) = 1.8"
    by (simp_all add: example_env_def example_args_def)
  from main_run [OF e] obtain rep where
    "main (example_env (Some (line_game True [])) []) (example_args 0.4 0.8 1.8) =
       Inr (clean_game_annotations (line_game True []), initial_stats, [], rep)"
    unfolding v r by auto
  then show ?thesis by (simp add: line_game_def initial_stats_def)
qed

end
